theory Spec2Isabelle
  imports Complex_Main
begin

section \<open>Data model of the workspace page\<close>

text \<open>
  The page component \<open>HomePage\<close> keeps its state in React state variables; the model is a
  record with one field per variable. A JavaScript \<open>Record<string, T>\<close> is a partial map
  from strings; \<open>k in obj\<close> and \<open>obj[k] !== undefined\<close> are \<open>m k \<noteq> None\<close> (keys naming
  members of \<open>Object.prototype\<close> are outside the model). \<open>BacktestResult\<close> and
  \<open>PaperStateResponse\<close> are never inspected by the page, so they are the type parameters
  \<open>'r\<close> and \<open>'p\<close>; a JavaScript number is a \<open>real\<close> (numbers are only copied).
  The market settings (symbol, period, ...) are passed through to request payloads
  unchanged and are left out of the state and of the requests; \<open>interval\<close> is kept
  because the polling effect writes it (\<open>None\<close> is \<open>undefined\<close>).

  An asynchronous handler closes over the variables of the render that created it.
  Every handler is therefore modelled in segments, one per stretch of code between two
  \<open>await\<close>s; a segment takes the closure \<open>cl\<close> (the state of the render the handler comes
  from) and the current state \<open>st\<close>. A plain \<open>setX(v)\<close> overwrites the field with a value
  computed from \<open>cl\<close>; a functional \<open>setX((prev) => ...)\<close> updates the field of \<open>st\<close>.
\<close>

datatype workspace_view = Coding | Backtesting | Ml | Paper

datatype param_type = PInt | PFloat

type_synonym number = real

record strategy =
  name :: string
  path :: string
  updated_at :: string

record strategy_param_spec =
  pname :: string
  ptype :: param_type
  pdefault :: number
  suggested_min :: number
  suggested_max :: number

record ml_range =
  range_min :: number
  range_max :: number
  range_type :: param_type

record 'r ml_session_cache =
  resultText :: string
  bestRun :: "'r option"
  error :: string
  ranges :: "string \<rightharpoonup> ml_range"

record 'p paper_session_cache =
  sessionId :: string
  session_error :: string
  session_state :: "'p option"

record ('r, 'p) home =
  view :: workspace_view
  strategies :: "strategy list"
  selectedPath :: "string option"
  code :: string
  codeByStrategy :: "string \<rightharpoonup> string"
  result :: "'r option"
  backtestByStrategy :: "string \<rightharpoonup> 'r"
  paramSpecsByStrategy :: "string \<rightharpoonup> strategy_param_spec list"
  mlByStrategy :: "string \<rightharpoonup> 'r ml_session_cache"
  mlBestResult :: "'r option"
  optuna :: string
  mlLoading :: bool
  mlError :: string
  mlParamSpecs :: "strategy_param_spec list"
  mlRanges :: "string \<rightharpoonup> ml_range"
  paperSession :: string
  paperError :: string
  paperState :: "'p option"
  paperByStrategy :: "string \<rightharpoonup> 'p paper_session_cache"
  paperLoading :: bool
  interval :: "string option"

text \<open>The state of \<open>Sidebar\<close>; \<open>storedFavorites\<close> is the item \<open>strategy_favorites_v1\<close>
  of \<open>localStorage\<close> (\<open>None\<close> while nothing has been written).\<close>

record sidebar =
  favorites :: "string list"
  editingPath :: "string option"
  editingName :: string
  storedFavorites :: "string list option"

text \<open>A remote call either rejects with an \<open>Error\<close> or fulfils with a value.
  \<open>errText\<close> is \<open>String(err.message || err)\<close>.\<close>

record js_error =
  ename :: string
  message :: string

type_synonym 'a response = "js_error + 'a"

definition errText :: "js_error \<Rightarrow> string" where
  "errText err = (if message err = [] then ename err else message err)"

text \<open>\<open>!selectedPath\<close>: \<open>null\<close> and the empty string are both falsy.\<close>

definition noPath :: "string option \<Rightarrow> bool" where
  "noPath p = (p = None \<or> p = Some [])"

section \<open>Registry reload, rename and delete\<close>

text \<open>The updaters that \<open>renameStrategy\<close> and \<open>deleteStrategy\<close> pass to each of the five
  setters are the same code; they are written once here.\<close>

definition renameKey :: "string \<Rightarrow> string \<Rightarrow> (string \<rightharpoonup> 'v) \<Rightarrow> (string \<rightharpoonup> 'v)" where
  "renameKey oldPath newPath prev =
     (if prev oldPath = None then prev
      else (prev(newPath := prev oldPath))(oldPath := None))"

definition deleteKey :: "string \<Rightarrow> (string \<rightharpoonup> 'v) \<Rightarrow> (string \<rightharpoonup> 'v)" where
  "deleteKey p prev = (if prev p = None then prev else prev(p := None))"

text \<open>\<open>reloadStrategies\<close> after \<open>GET /strategies\<close> has answered with \<open>files\<close>.\<close>

definition reloadStrategies_loaded ::
  "('r, 'p) home \<Rightarrow> strategy list \<Rightarrow> ('r, 'p) home \<Rightarrow> ('r, 'p) home" where
  "reloadStrategies_loaded cl files st =
     (let st1 = st\<lparr>strategies := files\<rparr> in
      case files of
        [] \<Rightarrow> st1\<lparr>selectedPath := None\<rparr>
      | f # _ \<Rightarrow>
          if noPath (selectedPath cl) \<or> selectedPath cl \<notin> set (map (Some \<circ> path) files)
          then st1\<lparr>selectedPath := Some (path f)\<rparr>
          else st1)"

definition reloadStrategies ::
  "('r, 'p) home \<Rightarrow> strategy list response \<Rightarrow> ('r, 'p) home \<Rightarrow> ('r, 'p) home \<times> unit response" where
  "reloadStrategies cl resp st =
     (case resp of
        Inl err \<Rightarrow> (st, Inl err)
      | Inr files \<Rightarrow> (reloadStrategies_loaded cl files st, Inr ()))"

text \<open>\<open>renameStrategy\<close> after \<open>POST /strategies/rename\<close> has been acknowledged.\<close>

definition renameStrategy_posted ::
  "string \<Rightarrow> string \<Rightarrow> ('r, 'p) home \<Rightarrow> ('r, 'p) home" where
  "renameStrategy_posted oldPath newPath st =
     st\<lparr>codeByStrategy := renameKey oldPath newPath (codeByStrategy st),
        paramSpecsByStrategy := renameKey oldPath newPath (paramSpecsByStrategy st),
        backtestByStrategy := renameKey oldPath newPath (backtestByStrategy st),
        mlByStrategy := renameKey oldPath newPath (mlByStrategy st),
        paperByStrategy := renameKey oldPath newPath (paperByStrategy st)\<rparr>"

text \<open>The whole of \<open>renameStrategy\<close>, run without another event in between: the answer to
  the rename request and the answer to the registry request are arguments.\<close>

definition renameStrategy ::
  "('r, 'p) home \<Rightarrow> string \<Rightarrow> string \<Rightarrow> unit response \<Rightarrow> strategy list response
     \<Rightarrow> ('r, 'p) home \<Rightarrow> ('r, 'p) home \<times> unit response" where
  "renameStrategy cl oldPath newPath posted listed st =
     (case posted of
        Inl err \<Rightarrow> (st, Inl err)
      | Inr _ \<Rightarrow> reloadStrategies cl listed (renameStrategy_posted oldPath newPath st))"

definition deleteStrategy_posted :: "string \<Rightarrow> ('r, 'p) home \<Rightarrow> ('r, 'p) home" where
  "deleteStrategy_posted p st =
     st\<lparr>codeByStrategy := deleteKey p (codeByStrategy st),
        paramSpecsByStrategy := deleteKey p (paramSpecsByStrategy st),
        backtestByStrategy := deleteKey p (backtestByStrategy st),
        mlByStrategy := deleteKey p (mlByStrategy st),
        paperByStrategy := deleteKey p (paperByStrategy st)\<rparr>"

definition deleteStrategy ::
  "('r, 'p) home \<Rightarrow> string \<Rightarrow> unit response \<Rightarrow> strategy list response
     \<Rightarrow> ('r, 'p) home \<Rightarrow> ('r, 'p) home \<times> unit response" where
  "deleteStrategy cl p posted listed st =
     (case posted of
        Inl err \<Rightarrow> (st, Inl err)
      | Inr _ \<Rightarrow> reloadStrategies cl listed (deleteStrategy_posted p st))"

section \<open>The sidebar: favorites, rename and delete\<close>

text \<open>The reconciliation effect of \<open>Sidebar\<close> (dependencies \<open>strategies\<close> and
  \<open>favorites\<close>): one run of its body.\<close>

definition reconcileFavorites :: "strategy list \<Rightarrow> sidebar \<Rightarrow> sidebar" where
  "reconcileFavorites strats sb =
     (if strats = [] then sb
      else
        let valid = set (map path strats);
            next = filter (\<lambda>p. p \<in> valid) (favorites sb)
        in if length next \<noteq> length (favorites sb)
           then sb\<lparr>favorites := next, storedFavorites := Some next\<rparr>
           else sb)"

definition toggleFavorite :: "string \<Rightarrow> sidebar \<Rightarrow> sidebar" where
  "toggleFavorite p sb =
     (let next = (if p \<in> set (favorites sb) then filter (\<lambda>q. q \<noteq> p) (favorites sb)
                  else p # favorites sb)
      in sb\<lparr>favorites := next, storedFavorites := Some next\<rparr>)"

text \<open>The \<open>try\<close> block of \<open>commitRename\<close>, for the old path and the new path that the
  lines before it have computed from the name typed: \<open>onRename\<close> is \<open>renameStrategy\<close>,
  \<open>onSelect\<close> is \<open>setSelectedPath\<close>. The closure is the pair of states \<open>(clh, cls)\<close> of
  the render the handler comes from: it supplies \<open>selectedPath\<close>, \<open>favoriteSet\<close> and
  \<open>favorites\<close>. A rejection of \<open>onRename\<close> leaves the \<open>try\<close> block before \<open>onSelect\<close> and
  before the favorites are rewritten. The third component of the result is the text
  shown by \<open>alert\<close>, if any.\<close>

definition commitRename_try ::
  "('r, 'p) home \<Rightarrow> sidebar \<Rightarrow> string \<Rightarrow> string \<Rightarrow> unit response \<Rightarrow> strategy list response
     \<Rightarrow> ('r, 'p) home \<times> sidebar \<Rightarrow> ('r, 'p) home \<times> sidebar \<times> string option" where
  "commitRename_try clh cls oldPath newPath posted listed a =
     (case renameStrategy clh oldPath newPath posted listed (fst a) of
        (st, Inl err) \<Rightarrow> (st, snd a, Some (errText err))
      | (st, Inr _) \<Rightarrow>
          let st1 = (if selectedPath clh = Some oldPath then st\<lparr>selectedPath := Some newPath\<rparr> else st);
              sb1 = (if oldPath \<in> set (favorites cls)
                     then let next = map (\<lambda>p. if p = oldPath then newPath else p) (favorites cls)
                          in (snd a)\<lparr>favorites := next, storedFavorites := Some next\<rparr>
                     else snd a)
          in (st1, sb1, None))"

text \<open>The click handler of the delete button, after the name typed into the prompt has
  matched: \<open>onDelete\<close> is \<open>deleteStrategy\<close>; a rejection is shown by \<open>alert\<close>. The handler
  does not touch the favorites: they change only when the reconciliation effect runs on
  the render that shows the reloaded registry.\<close>

definition deleteClick ::
  "('r, 'p) home \<Rightarrow> string \<Rightarrow> unit response \<Rightarrow> strategy list response
     \<Rightarrow> ('r, 'p) home \<times> sidebar \<Rightarrow> ('r, 'p) home \<times> sidebar \<times> string option" where
  "deleteClick clh p posted listed a =
     (case deleteStrategy clh p posted listed (fst a) of
        (st, Inl err) \<Rightarrow> (st, snd a, Some (errText err))
      | (st, Inr _) \<Rightarrow> (st, snd a, None))"

section \<open>Initial state\<close>

text \<open>The arguments of the \<open>useState\<close> calls.\<close>

definition initialHome :: "('r, 'p) home" where
  "initialHome =
     \<lparr>view = Coding, strategies = [], selectedPath = None, code = [],
      codeByStrategy = Map.empty, result = None, backtestByStrategy = Map.empty,
      paramSpecsByStrategy = Map.empty, mlByStrategy = Map.empty, mlBestResult = None,
      optuna = [], mlLoading = False, mlError = [], mlParamSpecs = [], mlRanges = Map.empty,
      paperSession = [], paperError = [], paperState = None, paperByStrategy = Map.empty,
      paperLoading = False, interval = Some ''1m''\<rparr>"

definition initialSidebar :: sidebar where
  "initialSidebar = \<lparr>favorites = [], editingPath = None, editingName = [], storedFavorites = None\<rparr>"

section \<open>Hydration on selection, editing and saving\<close>

text \<open>The \<open>reduce\<close> that turns a parameter specification into tuning ranges; it occurs
  three times in the source, once named \<open>resetRanges\<close>.\<close>

definition resetRanges :: "strategy_param_spec list \<Rightarrow> (string \<rightharpoonup> ml_range)" where
  "resetRanges params =
     foldl (\<lambda>acc p. acc(pname p \<mapsto>
              \<lparr>range_min = suggested_min p, range_max = suggested_max p, range_type = ptype p\<rparr>))
       Map.empty params"

text \<open>\<open>Array.isArray(res.params) ? res.params : []\<close>: the answer carries \<open>None\<close> where
  \<open>params\<close> is not an array.\<close>

definition paramsOf :: "strategy_param_spec list option \<Rightarrow> strategy_param_spec list" where
  "paramsOf meta = (case meta of None \<Rightarrow> [] | Some ps \<Rightarrow> ps)"

text \<open>The synchronous part of the hydration effect (dependency \<open>selectedPath\<close>), run on
  the render \<open>cl\<close>. Whether the two requests are issued is \<open>needsCode\<close> and \<open>needsParams\<close>.\<close>

definition hydrate :: "('r, 'p) home \<Rightarrow> ('r, 'p) home \<Rightarrow> ('r, 'p) home" where
  "hydrate cl st =
     (case selectedPath cl of
        None \<Rightarrow> st
      | Some p \<Rightarrow>
          if p = [] then st
          else
            let mlCached = mlByStrategy cl p;
                paperCached = paperByStrategy cl p;
                st1 = st\<lparr>result := backtestByStrategy cl p,
                         mlBestResult := (case mlCached of None \<Rightarrow> None | Some c \<Rightarrow> bestRun c),
                         optuna := (case mlCached of None \<Rightarrow> [] | Some c \<Rightarrow> resultText c),
                         mlError := (case mlCached of None \<Rightarrow> [] | Some c \<Rightarrow> error c),
                         mlRanges := (case mlCached of None \<Rightarrow> Map.empty | Some c \<Rightarrow> ranges c),
                         paperSession := (case paperCached of None \<Rightarrow> [] | Some c \<Rightarrow> sessionId c),
                         paperError := (case paperCached of None \<Rightarrow> [] | Some c \<Rightarrow> session_error c),
                         paperState := (case paperCached of None \<Rightarrow> None | Some c \<Rightarrow> session_state c)\<rparr>;
                st2 = (case codeByStrategy cl p of
                         Some cachedCode \<Rightarrow> st1\<lparr>code := cachedCode\<rparr>
                       | None \<Rightarrow> st1)
            in (case paramSpecsByStrategy cl p of
                  Some cachedParams \<Rightarrow>
                    st2\<lparr>mlParamSpecs := cachedParams,
                        mlRanges := (if mlCached = None then resetRanges cachedParams else mlRanges st2)\<rparr>
                | None \<Rightarrow> st2))"

definition needsCode :: "('r, 'p) home \<Rightarrow> string option" where
  "needsCode cl =
     (case selectedPath cl of
        None \<Rightarrow> None
      | Some p \<Rightarrow> if p \<noteq> [] \<and> codeByStrategy cl p = None then Some p else None)"

text \<open>What the callbacks of the parameter request read from the effect's closure: the
  path, and whether \<open>!mlCached?.ranges\<close> held.\<close>

record params_closure =
  ppath :: string
  noRanges :: bool

definition needsParams :: "('r, 'p) home \<Rightarrow> params_closure option" where
  "needsParams cl =
     (case selectedPath cl of
        None \<Rightarrow> None
      | Some p \<Rightarrow>
          if p \<noteq> [] \<and> paramSpecsByStrategy cl p = None
          then Some \<lparr>ppath = p, noRanges = (mlByStrategy cl p = None)\<rparr>
          else None)"

text \<open>The callbacks. \<open>active\<close> is the flag of the effect instance that issued the
  request: the cleanup of that instance has set it to false.\<close>

definition codeFetched :: "bool \<Rightarrow> string \<Rightarrow> string \<Rightarrow> ('r, 'p) home \<Rightarrow> ('r, 'p) home" where
  "codeFetched active p content st =
     (if \<not> active then st
      else st\<lparr>code := content, codeByStrategy := (codeByStrategy st)(p \<mapsto> content)\<rparr>)"

definition paramsFetched ::
  "bool \<Rightarrow> params_closure \<Rightarrow> strategy_param_spec list option \<Rightarrow> ('r, 'p) home \<Rightarrow> ('r, 'p) home" where
  "paramsFetched active c meta st =
     (if \<not> active then st
      else
        let params = paramsOf meta;
            st1 = st\<lparr>mlParamSpecs := params,
                     paramSpecsByStrategy := (paramSpecsByStrategy st)(ppath c \<mapsto> params)\<rparr>
        in if noRanges c then st1\<lparr>mlRanges := resetRanges params\<rparr> else st1)"

definition paramsFailed :: "bool \<Rightarrow> params_closure \<Rightarrow> ('r, 'p) home \<Rightarrow> ('r, 'p) home" where
  "paramsFailed active c st =
     (if \<not> active then st
      else
        let st1 = st\<lparr>mlParamSpecs := []\<rparr>
        in if noRanges c then st1\<lparr>mlRanges := Map.empty\<rparr> else st1)"

text \<open>\<open>onChange\<close> of the editor.\<close>

definition onChange :: "('r, 'p) home \<Rightarrow> string \<Rightarrow> ('r, 'p) home \<Rightarrow> ('r, 'p) home" where
  "onChange cl next st =
     (let st1 = st\<lparr>code := next\<rparr>
      in case selectedPath cl of
           None \<Rightarrow> st1
         | Some p \<Rightarrow>
             if p = [] then st1
             else st1\<lparr>codeByStrategy := (codeByStrategy st1)(p \<mapsto> next)\<rparr>)"

text \<open>\<open>saveStrategy\<close>: after the write has been acknowledged, after the parameter
  specification has arrived, and as a whole.\<close>

definition saveStrategy_posted :: "('r, 'p) home \<Rightarrow> string \<Rightarrow> ('r, 'p) home \<Rightarrow> ('r, 'p) home" where
  "saveStrategy_posted cl p st = st\<lparr>codeByStrategy := (codeByStrategy st)(p \<mapsto> code cl)\<rparr>"

definition saveStrategy_params ::
  "string \<Rightarrow> strategy_param_spec list option \<Rightarrow> ('r, 'p) home \<Rightarrow> ('r, 'p) home" where
  "saveStrategy_params p meta st =
     (let params = paramsOf meta;
          reset = resetRanges params
      in st\<lparr>mlParamSpecs := params,
            paramSpecsByStrategy := (paramSpecsByStrategy st)(p \<mapsto> params),
            mlRanges := reset,
            mlByStrategy := (mlByStrategy st)(p \<mapsto>
               \<lparr>resultText = [], bestRun = None, error = [], ranges = reset\<rparr>),
            backtestByStrategy := (backtestByStrategy st)(p := None)\<rparr>)"

definition saveStrategy ::
  "('r, 'p) home \<Rightarrow> unit response \<Rightarrow> strategy_param_spec list option response
     \<Rightarrow> strategy list response \<Rightarrow> ('r, 'p) home \<Rightarrow> ('r, 'p) home \<times> unit response" where
  "saveStrategy cl posted fetched listed st =
     (case selectedPath cl of
        None \<Rightarrow> (st, Inr ())
      | Some p \<Rightarrow>
          if p = [] then (st, Inr ())
          else
            (case posted of
               Inl err \<Rightarrow> (st, Inl err)
             | Inr _ \<Rightarrow>
                 let st1 = saveStrategy_posted cl p st in
                 (case fetched of
                    Inl err \<Rightarrow> (st1, Inl err)
                  | Inr meta \<Rightarrow> reloadStrategies cl listed (saveStrategy_params p meta st1))))"

section \<open>Backtest and tuning runs\<close>

datatype broker = Local | Alpaca

datatype request =
    GetStrategies
  | GetStrategy string
  | GetStrategyParams string
  | GetPaperState string
  | PostStrategy string string
  | PostRename string string
  | PostDelete string
  | PostBacktest string "(string \<rightharpoonup> number) option"
  | PostOptimize string "string \<rightharpoonup> number \<times> number"
  | PostPaperStart string broker

definition runBacktest ::
  "('r, 'p) home \<Rightarrow> 'r response \<Rightarrow> ('r, 'p) home \<Rightarrow> ('r, 'p) home \<times> unit response" where
  "runBacktest cl answered st =
     (case selectedPath cl of
        None \<Rightarrow> (st, Inr ())
      | Some p \<Rightarrow>
          if p = [] then (st, Inr ())
          else
            (case answered of
               Inl err \<Rightarrow> (st, Inl err)
             | Inr backtest \<Rightarrow>
                 (st\<lparr>result := Some backtest,
                     backtestByStrategy := (backtestByStrategy st)(p \<mapsto> backtest)\<rparr>, Inr ())))"

text \<open>The answer of \<open>POST /optimize/run\<close>, with the text \<open>JSON.stringify(res, null, 2)\<close>
  makes of it.\<close>

record optimize_result =
  best_value :: number
  best_params :: "string \<rightharpoonup> number"
  json :: string

definition rangesPayload :: "(string \<rightharpoonup> ml_range) \<Rightarrow> (string \<rightharpoonup> number \<times> number)" where
  "rangesPayload rs = (\<lambda>n. case rs n of None \<Rightarrow> None | Some r \<Rightarrow> Some (range_min r, range_max r))"

definition noParamsText :: string where
  "noParamsText = ''No numeric params found in strategy `params`.''"

text \<open>\<open>runOptimization\<close> for the selected path \<open>p\<close>, up to the first \<open>await\<close>: the new
  state and the request issued, if any.\<close>

definition runOptimization_start ::
  "('r, 'p) home \<Rightarrow> string \<Rightarrow> ('r, 'p) home \<Rightarrow> ('r, 'p) home \<times> request option" where
  "runOptimization_start cl p st =
     (if dom (rangesPayload (mlRanges cl)) = {}
      then (st\<lparr>mlError := noParamsText,
               mlByStrategy := (mlByStrategy st)(p \<mapsto>
                 \<lparr>resultText = optuna cl, bestRun = mlBestResult cl,
                  error = noParamsText, ranges = mlRanges cl\<rparr>)\<rparr>, None)
      else (st\<lparr>mlLoading := True, mlError := [], mlBestResult := None\<rparr>,
            Some (PostOptimize p (rangesPayload (mlRanges cl)))))"

text \<open>After the optimization has answered: the result text is shown and the backtest with
  the best parameters is requested.\<close>

definition runOptimization_optimized ::
  "string \<Rightarrow> optimize_result \<Rightarrow> ('r, 'p) home \<Rightarrow> ('r, 'p) home \<times> request" where
  "runOptimization_optimized p res st =
     (st\<lparr>optuna := json res\<rparr>, PostBacktest p (Some (best_params res)))"

text \<open>After that backtest has answered, with the \<open>finally\<close> block.\<close>

definition runOptimization_done ::
  "('r, 'p) home \<Rightarrow> string \<Rightarrow> optimize_result \<Rightarrow> 'r \<Rightarrow> ('r, 'p) home \<Rightarrow> ('r, 'p) home" where
  "runOptimization_done cl p res best st =
     st\<lparr>mlBestResult := Some best,
        mlByStrategy := (mlByStrategy st)(p \<mapsto>
          \<lparr>resultText = json res, bestRun = Some best, error = [], ranges = mlRanges cl\<rparr>),
        mlLoading := False\<rparr>"

text \<open>The \<open>catch\<close> block, with the \<open>finally\<close> block.\<close>

definition runOptimization_catch ::
  "('r, 'p) home \<Rightarrow> string \<Rightarrow> js_error \<Rightarrow> ('r, 'p) home \<Rightarrow> ('r, 'p) home" where
  "runOptimization_catch cl p err st =
     st\<lparr>mlError := errText err,
        mlByStrategy := (mlByStrategy st)(p \<mapsto>
          \<lparr>resultText = optuna cl, bestRun = mlBestResult cl,
           error = errText err, ranges = mlRanges cl\<rparr>),
        mlLoading := False\<rparr>"

text \<open>The whole of \<open>runOptimization\<close> without another event in between; the second
  component is the list of requests issued, in order.\<close>

definition runOptimization ::
  "('r, 'p) home \<Rightarrow> optimize_result response \<Rightarrow> 'r response \<Rightarrow> ('r, 'p) home
     \<Rightarrow> (('r, 'p) home \<times> request list) \<times> unit response" where
  "runOptimization cl optimized backtested st =
     (case selectedPath cl of
        None \<Rightarrow> ((st, []), Inr ())
      | Some p \<Rightarrow>
          if p = [] then ((st, []), Inr ())
          else
            (case runOptimization_start cl p st of
               (st1, None) \<Rightarrow> ((st1, []), Inr ())
             | (st1, Some req1) \<Rightarrow>
                 (case optimized of
                    Inl err \<Rightarrow> ((runOptimization_catch cl p err st1, [req1]), Inr ())
                  | Inr res \<Rightarrow>
                      (case runOptimization_optimized p res st1 of
                         (st2, req2) \<Rightarrow>
                           (case backtested of
                              Inl err \<Rightarrow>
                                ((runOptimization_catch cl p err st2, [req1, req2]), Inr ())
                            | Inr best \<Rightarrow>
                                ((runOptimization_done cl p res best st2, [req1, req2]), Inr ()))))))"

text \<open>The same flow with other events in between: \<open>during1\<close> and \<open>during2\<close> are what the
  handlers of the events that arrive while the first and while the second request is
  pending do to the state (a switch of strategy, an edit of the ranges, ...). The
  closure \<open>cl\<close> stays the one of the render in which the run was requested.\<close>

definition runOptimization_during ::
  "('r, 'p) home \<Rightarrow> optimize_result response \<Rightarrow> 'r response
     \<Rightarrow> (('r, 'p) home \<Rightarrow> ('r, 'p) home) \<Rightarrow> (('r, 'p) home \<Rightarrow> ('r, 'p) home) \<Rightarrow> ('r, 'p) home
     \<Rightarrow> (('r, 'p) home \<times> request list) \<times> unit response" where
  "runOptimization_during cl optimized backtested during1 during2 st =
     (case selectedPath cl of
        None \<Rightarrow> ((st, []), Inr ())
      | Some p \<Rightarrow>
          if p = [] then ((st, []), Inr ())
          else
            (case runOptimization_start cl p st of
               (st1, None) \<Rightarrow> ((st1, []), Inr ())
             | (st1, Some req1) \<Rightarrow>
                 (case optimized of
                    Inl err \<Rightarrow> ((runOptimization_catch cl p err (during1 st1), [req1]), Inr ())
                  | Inr res \<Rightarrow>
                      (case runOptimization_optimized p res (during1 st1) of
                         (st2, req2) \<Rightarrow>
                           (case backtested of
                              Inl err \<Rightarrow>
                                ((runOptimization_catch cl p err (during2 st2), [req1, req2]), Inr ())
                            | Inr best \<Rightarrow>
                                ((runOptimization_done cl p res best (during2 st2), [req1, req2]),
                                 Inr ()))))))"

section \<open>Paper sessions and the polling effect\<close>

definition startPaper_started :: "string \<Rightarrow> string \<Rightarrow> ('r, 'p) home \<Rightarrow> ('r, 'p) home" where
  "startPaper_started p sid st =
     st\<lparr>paperSession := sid,
        paperByStrategy := (paperByStrategy st)(p \<mapsto>
          \<lparr>sessionId = sid, session_error = [], session_state = None\<rparr>)\<rparr>"

text \<open>\<open>startPaper\<close>: up to its \<open>await\<close> (\<open>startPaper_clicked\<close>), after it
  (\<open>startPaper_started\<close>, above), and as a whole without another event in between.\<close>

definition startPaper_clicked :: "('r, 'p) home \<Rightarrow> ('r, 'p) home" where
  "startPaper_clicked st = st\<lparr>paperError := [], paperState := None\<rparr>"

definition startPaper ::
  "('r, 'p) home \<Rightarrow> broker \<Rightarrow> string response \<Rightarrow> ('r, 'p) home \<Rightarrow> ('r, 'p) home \<times> unit response" where
  "startPaper cl b answered st =
     (case selectedPath cl of
        None \<Rightarrow> (st, Inr ())
      | Some p \<Rightarrow>
          if p = [] then (st, Inr ())
          else
            let st1 = startPaper_clicked st in
            (case answered of
               Inl err \<Rightarrow> (st1, Inl err)
             | Inr sid \<Rightarrow> (startPaper_started p sid st1, Inr ())))"

text \<open>\<open>refreshPaperState\<close>. \<open>refreshTarget\<close> is its guard: the path the closure writes
  to, or \<open>None\<close> where the function returns at once. The part after the \<open>await\<close> (with the
  \<open>finally\<close> block) reads the path, the session id and the old snapshot from the
  closure and nothing from the current selection, view or session.\<close>

definition refreshTarget :: "('r, 'p) home \<Rightarrow> string option" where
  "refreshTarget cl =
     (if paperSession cl = [] \<or> noPath (selectedPath cl) then None else selectedPath cl)"

definition refreshPaperState_begin ::
  "('r, 'p) home \<Rightarrow> ('r, 'p) home \<Rightarrow> ('r, 'p) home \<times> request list" where
  "refreshPaperState_begin cl st =
     (case refreshTarget cl of
        None \<Rightarrow> (st, [])
      | Some _ \<Rightarrow> (st\<lparr>paperLoading := True\<rparr>, [GetPaperState (paperSession cl)]))"

definition refreshPaperState_done ::
  "('r, 'p) home \<Rightarrow> string \<Rightarrow> 'p response \<Rightarrow> ('r, 'p) home \<Rightarrow> ('r, 'p) home" where
  "refreshPaperState_done cl p answered st =
     (case answered of
        Inr s \<Rightarrow>
          st\<lparr>paperState := Some s, paperError := [],
             paperByStrategy := (paperByStrategy st)(p \<mapsto>
               \<lparr>sessionId = paperSession cl, session_error = [], session_state = Some s\<rparr>),
             paperLoading := False\<rparr>
      | Inl err \<Rightarrow>
          st\<lparr>paperError := errText err,
             paperByStrategy := (paperByStrategy st)(p \<mapsto>
               \<lparr>sessionId = paperSession cl, session_error = errText err,
                session_state = paperState cl\<rparr>),
             paperLoading := False\<rparr>)"

definition refreshPaperState ::
  "('r, 'p) home \<Rightarrow> 'p response \<Rightarrow> ('r, 'p) home \<Rightarrow> ('r, 'p) home \<times> unit response" where
  "refreshPaperState cl answered st =
     (case refreshTarget cl of
        None \<Rightarrow> (st, Inr ())
      | Some p \<Rightarrow>
          (refreshPaperState_done cl p answered (fst (refreshPaperState_begin cl st)), Inr ()))"

section \<open>How the views call the handlers\<close>

text \<open>\<open>onSave\<close>, \<open>onRun\<close> and \<open>onStartLocal\<close> hand the promise to \<open>onClick\<close>, which drops it:
  a rejection reaches nobody (second component). \<open>onStartAlpaca\<close> and \<open>onRefresh\<close> (and the
  polling effect) attach \<open>.catch((err) => setPaperError(String(err.message || err)))\<close>.\<close>

definition dropped :: "'s \<times> unit response \<Rightarrow> 's \<times> js_error option" where
  "dropped r = (case r of (st, Inl err) \<Rightarrow> (st, Some err) | (st, Inr _) \<Rightarrow> (st, None))"

definition caughtAsPaperError ::
  "('r, 'p) home \<times> unit response \<Rightarrow> ('r, 'p) home \<times> js_error option" where
  "caughtAsPaperError r =
     (case r of
        (st, Inl err) \<Rightarrow> (st\<lparr>paperError := errText err\<rparr>, None)
      | (st, Inr _) \<Rightarrow> (st, None))"

definition onSave ::
  "('r, 'p) home \<Rightarrow> unit response \<Rightarrow> strategy_param_spec list option response
     \<Rightarrow> strategy list response \<Rightarrow> ('r, 'p) home \<Rightarrow> ('r, 'p) home \<times> js_error option" where
  "onSave cl posted fetched listed st = dropped (saveStrategy cl posted fetched listed st)"

definition onRunBacktest ::
  "('r, 'p) home \<Rightarrow> 'r response \<Rightarrow> ('r, 'p) home \<Rightarrow> ('r, 'p) home \<times> js_error option" where
  "onRunBacktest cl answered st = dropped (runBacktest cl answered st)"

definition onRunOptimization ::
  "('r, 'p) home \<Rightarrow> optimize_result response \<Rightarrow> 'r response \<Rightarrow> ('r, 'p) home
     \<Rightarrow> ('r, 'p) home \<times> js_error option" where
  "onRunOptimization cl optimized backtested st =
     (case runOptimization cl optimized backtested st of
        ((st1, _), settled) \<Rightarrow> dropped (st1, settled))"

definition onStartLocal ::
  "('r, 'p) home \<Rightarrow> string response \<Rightarrow> ('r, 'p) home \<Rightarrow> ('r, 'p) home \<times> js_error option" where
  "onStartLocal cl answered st = dropped (startPaper cl Local answered st)"

definition onStartAlpaca ::
  "('r, 'p) home \<Rightarrow> string response \<Rightarrow> ('r, 'p) home \<Rightarrow> ('r, 'p) home \<times> js_error option" where
  "onStartAlpaca cl answered st = caughtAsPaperError (startPaper cl Alpaca answered st)"

definition onRefresh ::
  "('r, 'p) home \<Rightarrow> 'p response \<Rightarrow> ('r, 'p) home \<Rightarrow> ('r, 'p) home \<times> js_error option" where
  "onRefresh cl answered st = caughtAsPaperError (refreshPaperState cl answered st)"

section \<open>Selection, editing and fetching as a transition system\<close>

text \<open>
  The hydration effect keeps one flag \<open>active\<close> per run; the cleanup that precedes the
  next run sets it to false. \<open>effectRuns\<close> counts the runs, so the flag of run \<open>k\<close> is
  true exactly while \<open>k = effectRuns\<close>. \<open>codeFetches\<close> and \<open>paramFetches\<close> hold the requests
  that have not answered yet, under the number of the run that issued them. The renders
  and effects that follow one event are one step.
\<close>

record ('r, 'p) page =
  page_home :: "('r, 'p) home"
  effectRuns :: nat
  codeFetches :: "nat \<rightharpoonup> string"
  paramFetches :: "nat \<rightharpoonup> params_closure"

datatype ev =
    Select string
  | Edit string
  | CodeArrived nat string
  | CodeRejected nat
  | ParamsArrived nat "strategy_param_spec list option"
  | ParamsRejected nat

definition initialPage :: "('r, 'p) page" where
  "initialPage =
     \<lparr>page_home = initialHome, effectRuns = 0, codeFetches = Map.empty, paramFetches = Map.empty\<rparr>"

text \<open>\<open>onSelect\<close> is \<open>setSelectedPath\<close>: the same path again renders nothing; another path
  runs the cleanup of the last effect instance and then the effect.\<close>

definition select :: "string \<Rightarrow> ('r, 'p) page \<Rightarrow> ('r, 'p) page" where
  "select p pg =
     (if selectedPath (page_home pg) = Some p then pg
      else
        let cl = (page_home pg)\<lparr>selectedPath := Some p\<rparr>;
            k = Suc (effectRuns pg)
        in \<lparr>page_home = hydrate cl cl,
            effectRuns = k,
            codeFetches = (case needsCode cl of
                             None \<Rightarrow> codeFetches pg
                           | Some q \<Rightarrow> (codeFetches pg)(k \<mapsto> q)),
            paramFetches = (case needsParams cl of
                              None \<Rightarrow> paramFetches pg
                            | Some c \<Rightarrow> (paramFetches pg)(k \<mapsto> c))\<rparr>)"

fun step :: "('r, 'p) page \<Rightarrow> ev \<Rightarrow> ('r, 'p) page" where
  "step pg (Select p) = select p pg"
| "step pg (Edit next) = pg\<lparr>page_home := onChange (page_home pg) next (page_home pg)\<rparr>"
| "step pg (CodeArrived k content) =
     (case codeFetches pg k of
        None \<Rightarrow> pg
      | Some p \<Rightarrow>
          pg\<lparr>page_home := codeFetched (k = effectRuns pg) p content (page_home pg),
             codeFetches := (codeFetches pg)(k := None)\<rparr>)"
| "step pg (CodeRejected k) = pg\<lparr>codeFetches := (codeFetches pg)(k := None)\<rparr>"
| "step pg (ParamsArrived k meta) =
     (case paramFetches pg k of
        None \<Rightarrow> pg
      | Some c \<Rightarrow>
          pg\<lparr>page_home := paramsFetched (k = effectRuns pg) c meta (page_home pg),
             paramFetches := (paramFetches pg)(k := None)\<rparr>)"
| "step pg (ParamsRejected k) =
     (case paramFetches pg k of
        None \<Rightarrow> pg
      | Some c \<Rightarrow>
          pg\<lparr>page_home := paramsFailed (k = effectRuns pg) c (page_home pg),
             paramFetches := (paramFetches pg)(k := None)\<rparr>)"

definition run :: "('r, 'p) page \<Rightarrow> ev list \<Rightarrow> ('r, 'p) page" where
  "run pg evs = foldl step pg evs"

text \<open>The value an event commits for the strategy \<open>X\<close>, in the words of the claim: an
  edit made while \<open>X\<close> is selected commits the text typed, and the answer to a fetch for
  \<open>X\<close> commits the text fetched. \<open>lastClaimed\<close> is the last value so committed along a
  sequence of events.\<close>

fun claimedCommit :: "string \<Rightarrow> ('r, 'p) page \<Rightarrow> ev \<Rightarrow> string option" where
  "claimedCommit X pg (Edit next) = (if selectedPath (page_home pg) = Some X then Some next else None)"
| "claimedCommit X pg (CodeArrived k content) =
     (if codeFetches pg k = Some X then Some content else None)"
| "claimedCommit X pg _ = None"

fun lastClaimed :: "string \<Rightarrow> ('r, 'p) page \<Rightarrow> ev list \<Rightarrow> string option" where
  "lastClaimed X pg [] = None"
| "lastClaimed X pg (e # es) =
     (case lastClaimed X (step pg e) es of
        Some v \<Rightarrow> Some v
      | None \<Rightarrow> claimedCommit X pg e)"

text \<open>The narrower notion of the amended claim: the answer to a fetch for \<open>X\<close> commits
  only if it arrives while the selection that issued the fetch is still current.
  \<open>lastAccepted\<close> is the last value so committed.\<close>

fun acceptedCommit :: "string \<Rightarrow> ('r, 'p) page \<Rightarrow> ev \<Rightarrow> string option" where
  "acceptedCommit X pg (Edit next) = (if selectedPath (page_home pg) = Some X then Some next else None)"
| "acceptedCommit X pg (CodeArrived k content) =
     (if codeFetches pg k = Some X \<and> k = effectRuns pg then Some content else None)"
| "acceptedCommit X pg _ = None"

fun lastAccepted :: "string \<Rightarrow> ('r, 'p) page \<Rightarrow> ev list \<Rightarrow> string option" where
  "lastAccepted X pg [] = None"
| "lastAccepted X pg (e # es) =
     (case lastAccepted X (step pg e) es of
        Some v \<Rightarrow> Some v
      | None \<Rightarrow> acceptedCommit X pg e)"

section \<open>The polling effect as a transition system\<close>






text \<open>Two invariants of the transition system. \<open>fetchesLive\<close>: no outstanding code
  request carries a run number of the future, and the request of the current effect
  instance is for the selected path. \<open>shownIsCached\<close>: when the selected strategy has a
  cached text, that text is the one displayed.\<close>

definition fetchesLive :: "('r, 'p) page \<Rightarrow> bool" where
  "fetchesLive pg =
     ((\<forall>k p. codeFetches pg k = Some p \<longrightarrow> k \<le> effectRuns pg)
      \<and> (\<forall>p. codeFetches pg (effectRuns pg) = Some p \<longrightarrow>
             selectedPath (page_home pg) = Some p \<and> p \<noteq> []))"

definition shownIsCached :: "('r, 'p) page \<Rightarrow> bool" where
  "shownIsCached pg =
     (\<forall>p v. selectedPath (page_home pg) = Some p \<and> p \<noteq> []
              \<and> codeByStrategy (page_home pg) p = Some v \<longrightarrow> code (page_home pg) = v)"

section \<open>Moving and removing cache keys\<close>

lemma renameKey_old: "renameKey oldPath newPath m oldPath = None"
  by (simp add: renameKey_def)

lemma renameKey_new:
  "oldPath \<noteq> newPath \<Longrightarrow> m oldPath \<noteq> None \<Longrightarrow> renameKey oldPath newPath m newPath = m oldPath"
  by (auto simp: renameKey_def)

lemma renameKey_absent: "m oldPath = None \<Longrightarrow> renameKey oldPath newPath m = m"
  by (simp add: renameKey_def)

lemma deleteKey_gone: "deleteKey p m p = None"
  by (simp add: deleteKey_def)

lemma deleteKey_other: "q \<noteq> p \<Longrightarrow> deleteKey p m q = m q"
  by (simp add: deleteKey_def)

lemma reload_caches:
  "codeByStrategy (reloadStrategies_loaded cl files st) = codeByStrategy st"
  "paramSpecsByStrategy (reloadStrategies_loaded cl files st) = paramSpecsByStrategy st"
  "backtestByStrategy (reloadStrategies_loaded cl files st) = backtestByStrategy st"
  "mlByStrategy (reloadStrategies_loaded cl files st) = mlByStrategy st"
  "paperByStrategy (reloadStrategies_loaded cl files st) = paperByStrategy st"
  by (simp_all add: reloadStrategies_loaded_def Let_def split: list.splits)

lemma commitRename_try_ok:
  "commitRename_try clh cls oldPath newPath (Inr ()) (Inr files) (st, sb) =
     (let st0 = reloadStrategies_loaded clh files (renameStrategy_posted oldPath newPath st);
          st1 = (if selectedPath clh = Some oldPath then st0\<lparr>selectedPath := Some newPath\<rparr> else st0);
          sb1 = (if oldPath \<in> set (favorites cls)
                 then sb\<lparr>favorites := map (\<lambda>p. if p = oldPath then newPath else p) (favorites cls),
                        storedFavorites := Some (map (\<lambda>p. if p = oldPath then newPath else p) (favorites cls))\<rparr>
                 else sb)
      in (st1, sb1, None))"
  by (simp add: commitRename_try_def renameStrategy_def reloadStrategies_def Let_def)

lemma map_rename_set:
  "oldPath \<noteq> newPath \<Longrightarrow> oldPath \<notin> set (map (\<lambda>p. if p = oldPath then newPath else p) fs)"
  by (induction fs) auto

lemma map_rename_mem:
  "oldPath \<in> set fs \<Longrightarrow> newPath \<in> set (map (\<lambda>p. if p = oldPath then newPath else p) fs)"
  by (induction fs) auto

text \<open>What the rename does when the remote service acknowledges it and the registry
  reload that follows succeeds, for a new path other than the old one: no bucket and not
  the favorites hold an entry under the old path, an entry that existed sits under the
  new path, and a bucket without an entry under the old path is unchanged.\<close>

lemma rename_moves_when_reload_succeeds:
  assumes neq: "oldPath \<noteq> newPath"
    and fin: "commitRename_try clh sb oldPath newPath (Inr ()) (Inr files) (st, sb) = (st', sb', out)"
  shows "out = None
    \<and> codeByStrategy st' oldPath = None \<and> backtestByStrategy st' oldPath = None
    \<and> mlByStrategy st' oldPath = None \<and> paperByStrategy st' oldPath = None
    \<and> paramSpecsByStrategy st' oldPath = None \<and> oldPath \<notin> set (favorites sb')
    \<and> (codeByStrategy st oldPath \<noteq> None \<longrightarrow> codeByStrategy st' newPath = codeByStrategy st oldPath)
    \<and> (backtestByStrategy st oldPath \<noteq> None \<longrightarrow> backtestByStrategy st' newPath = backtestByStrategy st oldPath)
    \<and> (mlByStrategy st oldPath \<noteq> None \<longrightarrow> mlByStrategy st' newPath = mlByStrategy st oldPath)
    \<and> (paperByStrategy st oldPath \<noteq> None \<longrightarrow> paperByStrategy st' newPath = paperByStrategy st oldPath)
    \<and> (paramSpecsByStrategy st oldPath \<noteq> None \<longrightarrow> paramSpecsByStrategy st' newPath = paramSpecsByStrategy st oldPath)
    \<and> (oldPath \<in> set (favorites sb) \<longrightarrow> newPath \<in> set (favorites sb'))
    \<and> (codeByStrategy st oldPath = None \<longrightarrow> codeByStrategy st' = codeByStrategy st)
    \<and> (backtestByStrategy st oldPath = None \<longrightarrow> backtestByStrategy st' = backtestByStrategy st)
    \<and> (mlByStrategy st oldPath = None \<longrightarrow> mlByStrategy st' = mlByStrategy st)
    \<and> (paperByStrategy st oldPath = None \<longrightarrow> paperByStrategy st' = paperByStrategy st)
    \<and> (paramSpecsByStrategy st oldPath = None \<longrightarrow> paramSpecsByStrategy st' = paramSpecsByStrategy st)
    \<and> (oldPath \<notin> set (favorites sb) \<longrightarrow> favorites sb' = favorites sb)"
proof -
  let ?st0 = "reloadStrategies_loaded clh files (renameStrategy_posted oldPath newPath st)"
  let ?next = "map (\<lambda>p. if p = oldPath then newPath else p) (favorites sb)"
  from fin have out: "out = None"
    and sb': "sb' = (if oldPath \<in> set (favorites sb)
                 then sb\<lparr>favorites := ?next, storedFavorites := Some ?next\<rparr> else sb)"
    and st': "st' = (if selectedPath clh = Some oldPath then ?st0\<lparr>selectedPath := Some newPath\<rparr> else ?st0)"
    by (simp_all add: commitRename_try_ok Let_def)
  have c: "codeByStrategy st' = renameKey oldPath newPath (codeByStrategy st)"
    and b: "backtestByStrategy st' = renameKey oldPath newPath (backtestByStrategy st)"
    and m: "mlByStrategy st' = renameKey oldPath newPath (mlByStrategy st)"
    and p: "paperByStrategy st' = renameKey oldPath newPath (paperByStrategy st)"
    and s: "paramSpecsByStrategy st' = renameKey oldPath newPath (paramSpecsByStrategy st)"
    by (simp_all add: st' reload_caches renameStrategy_posted_def)
  have f1: "oldPath \<notin> set (favorites sb')"
    using neq by (simp add: sb' map_rename_set del: set_map)
  have f2: "oldPath \<in> set (favorites sb) \<longrightarrow> newPath \<in> set (favorites sb')"
    by (simp add: sb' map_rename_mem del: set_map)
  have f3: "oldPath \<notin> set (favorites sb) \<longrightarrow> favorites sb' = favorites sb"
    by (simp add: sb')
  show ?thesis
    unfolding c b m p s
    using out f1 f2 f3 neq
    by (simp add: renameKey_old renameKey_new renameKey_absent)
qed

text \<open>With the rename acknowledged and the registry reload rejected, the caches have
  moved and nothing else has happened.\<close>

lemma commitRename_try_reload_rejected:
  "commitRename_try clh cls oldPath newPath (Inr ()) (Inl err) (st, sb) =
     (renameStrategy_posted oldPath newPath st, sb, Some (errText err))"
  by (simp add: commitRename_try_def renameStrategy_def reloadStrategies_def)

text \<open>
  Claim C1 says that after every rename no bucket and not the favorites hold an entry
  under the old id and that the entries sit under the new id. The code breaks this when
  the remote service acknowledges the rename and the registry request that ends
  \<open>renameStrategy\<close> is rejected: the five caches have already moved, the rejection leaves
  the \<open>try\<close> block of \<open>commitRename\<close> before \<open>onSelect\<close> and the favorites rewrite, and an
  alert is shown. Here \<open>a.py\<close>, active, favorited and with cached code and backtest, is
  renamed to \<open>alpha.py\<close>: the caches are under \<open>alpha.py\<close>, the favorites still hold
  \<open>a.py\<close> and not \<open>alpha.py\<close>, and the active id is still \<open>a.py\<close>.
\<close>

theorem rename_reload_rejected_splits_state:
  "(let h = (initialHome\<lparr>selectedPath := Some ''a.py'', codeByStrategy := [''a.py'' \<mapsto> ''X=1''],
                          backtestByStrategy := [''a.py'' \<mapsto> 7]\<rparr> :: (nat, nat) home);
        sb = initialSidebar\<lparr>favorites := [''b.py'', ''a.py'']\<rparr>
    in case commitRename_try h sb ''a.py'' ''alpha.py'' (Inr ())
              (Inl \<lparr>ename = ''TypeError'', message = ''Failed to fetch''\<rparr>) (h, sb)
       of (st', sb', out) \<Rightarrow>
         out = Some ''Failed to fetch''
         \<and> codeByStrategy st' ''a.py'' = None \<and> codeByStrategy st' ''alpha.py'' = Some ''X=1''
         \<and> backtestByStrategy st' ''a.py'' = None \<and> backtestByStrategy st' ''alpha.py'' = Some 7
         \<and> ''a.py'' \<in> set (favorites sb') \<and> ''alpha.py'' \<notin> set (favorites sb')
         \<and> selectedPath st' = Some ''a.py'')"
  by (simp add: Let_def commitRename_try_reload_rejected renameStrategy_posted_def renameKey_def
      errText_def initialHome_def initialSidebar_def)

section \<open>Reconciling the favorites with the registry\<close>

lemma filter_same_length: "length (filter P xs) = length xs \<Longrightarrow> filter P xs = xs"
  by (metis filter_id_conv length_filter_less less_irrefl)

lemma reconcileFavorites_filter:
  assumes "strats \<noteq> []"
  shows "favorites (reconcileFavorites strats sb) =
           filter (\<lambda>p. p \<in> set (map path strats)) (favorites sb)"
proof (cases "length (filter (\<lambda>p. p \<in> set (map path strats)) (favorites sb)) = length (favorites sb)")
  case True
  with assms show ?thesis
    by (simp add: reconcileFavorites_def Let_def filter_same_length del: set_map)
next
  case False
  with assms show ?thesis
    by (simp add: reconcileFavorites_def Let_def del: set_map)
qed

text \<open>
  Claim C7 as stated fails for the empty registry: the effect returns before it filters
  (\<open>if (strategies.length === 0) return\<close>), so a stored favorite survives a pass although
  the registry does not hold it.
\<close>

theorem reconcile_empty_registry_counterexample:
  "\<not> set (favorites (reconcileFavorites [] (initialSidebar\<lparr>favorites := [''a.py'']\<rparr>)))
       \<subseteq> set (map path [])"
  by (simp add: reconcileFavorites_def initialSidebar_def)

text \<open>
  Claim C7, amended. For every non-empty registry and every stored favorites list, after a
  reconciliation pass the favorites are the stored favorites that the registry holds, in
  their order: no favorite is absent from the registry.
\<close>

theorem reconcile_prunes_favorites:
  assumes "strats \<noteq> []"
  shows "set (favorites (reconcileFavorites strats sb)) \<subseteq> set (map path strats)
       \<and> favorites (reconcileFavorites strats sb) =
           filter (\<lambda>p. p \<in> set (map path strats)) (favorites sb)"
  using assms by (auto simp: reconcileFavorites_filter simp del: set_map)

theorem reconcile_prunes_favorites_witness:
  "[\<lparr>name = ''b'', path = ''b.py'', updated_at = []\<rparr>] \<noteq> [] \<and>
   favorites (reconcileFavorites [\<lparr>name = ''b'', path = ''b.py'', updated_at = []\<rparr>]
                (initialSidebar\<lparr>favorites := [''a.py'', ''b.py'']\<rparr>)) = [''b.py'']"
proof -
  have ne: "[\<lparr>name = ''b'', path = ''b.py'', updated_at = []\<rparr>] \<noteq> []" by simp
  show ?thesis
    using reconcile_prunes_favorites [OF ne, of "initialSidebar\<lparr>favorites := [''a.py'', ''b.py'']\<rparr>"]
    by (simp add: initialSidebar_def)
qed

section \<open>Deleting a strategy\<close>

lemma deleteClick_ok:
  "deleteClick clh p (Inr ()) (Inr files) (st, sb) =
     (reloadStrategies_loaded clh files (deleteStrategy_posted p st), sb, None)"
  by (simp add: deleteClick_def deleteStrategy_def reloadStrategies_def)

lemma reload_selected:
  "selectedPath clh = Some p \<Longrightarrow> p \<notin> set (map path files) \<Longrightarrow>
   selectedPath (reloadStrategies_loaded clh files st) =
     (case files of [] \<Rightarrow> None | f # _ \<Rightarrow> Some (path f))"
  by (auto simp: reloadStrategies_loaded_def Let_def split: list.splits)

lemma reload_strategies: "strategies (reloadStrategies_loaded clh files st) = files"
  by (simp add: reloadStrategies_loaded_def Let_def split: list.splits)

text \<open>
  Claim C6 as stated fails: \<open>deleteStrategy\<close> never sets the active id to null itself; it
  reloads the registry, and the reload selects the first remaining strategy at once.
  Here \<open>a.py\<close> is active and deleted while \<open>b.py\<close> remains.
\<close>

theorem delete_active_counterexample:
  "selectedPath (fst (deleteClick
       (initialHome\<lparr>selectedPath := Some ''a.py''\<rparr> :: (nat, nat) home) ''a.py'' (Inr ())
       (Inr [\<lparr>name = ''b'', path = ''b.py'', updated_at = []\<rparr>])
       (initialHome\<lparr>selectedPath := Some ''a.py''\<rparr>, initialSidebar))) \<noteq> None"
  by (simp add: deleteClick_ok reloadStrategies_loaded_def noPath_def initialHome_def)

text \<open>The favorites are pruned by the reconciliation effect only, and that effect skips an
  empty registry: deleting the last strategy leaves it in the favorites.\<close>

lemma delete_last_keeps_favorite:
  "(case deleteClick (initialHome\<lparr>selectedPath := Some ''a.py''\<rparr> :: (nat, nat) home) ''a.py''
           (Inr ()) (Inr [])
           (initialHome\<lparr>selectedPath := Some ''a.py''\<rparr>, initialSidebar\<lparr>favorites := [''a.py'']\<rparr>)
    of (st', sb', out) \<Rightarrow>
      selectedPath st' = None \<and> ''a.py'' \<in> set (favorites (reconcileFavorites (strategies st') sb')))"
  by (simp add: deleteClick_ok reloadStrategies_loaded_def reconcileFavorites_def
      initialHome_def initialSidebar_def)

text \<open>
  Claim C6, amended. After a delete of \<open>p\<close> that the remote service acknowledges and a
  successful registry reload, no cache bucket holds an entry under \<open>p\<close>. If \<open>p\<close> was the
  active strategy and the reloaded registry no longer lists it, the active id is the
  first strategy of the reloaded registry, and null only when that registry is empty.
  The handler leaves the favorites alone; the reconciliation pass on the reloaded
  registry removes \<open>p\<close> from them when that registry is not empty and does not list \<open>p\<close>.
\<close>

theorem delete_clears_buckets:
  assumes fin: "deleteClick clh p (Inr ()) (Inr files) (st, sb) = (st', sb', out)"
  shows "out = None \<and> sb' = sb
    \<and> codeByStrategy st' p = None \<and> backtestByStrategy st' p = None
    \<and> mlByStrategy st' p = None \<and> paperByStrategy st' p = None
    \<and> paramSpecsByStrategy st' p = None
    \<and> (selectedPath clh = Some p \<and> p \<notin> set (map path files) \<longrightarrow>
         selectedPath st' = (case files of [] \<Rightarrow> None | f # _ \<Rightarrow> Some (path f)))
    \<and> (files \<noteq> [] \<and> p \<notin> set (map path files) \<longrightarrow>
         p \<notin> set (favorites (reconcileFavorites (strategies st') sb')))"
proof -
  from fin have st': "st' = reloadStrategies_loaded clh files (deleteStrategy_posted p st)"
    and sb': "sb' = sb" and out: "out = None"
    by (simp_all add: deleteClick_ok)
  have buckets: "codeByStrategy st' p = None \<and> backtestByStrategy st' p = None
    \<and> mlByStrategy st' p = None \<and> paperByStrategy st' p = None
    \<and> paramSpecsByStrategy st' p = None"
    by (simp add: st' reload_caches deleteStrategy_posted_def deleteKey_gone)
  have sel: "selectedPath clh = Some p \<and> p \<notin> set (map path files) \<longrightarrow>
         selectedPath st' = (case files of [] \<Rightarrow> None | f # _ \<Rightarrow> Some (path f))"
    unfolding st' using reload_selected by blast
  have fav: "files \<noteq> [] \<and> p \<notin> set (map path files) \<longrightarrow>
         p \<notin> set (favorites (reconcileFavorites (strategies st') sb'))"
    unfolding st' reload_strategies
    by (auto simp: reconcileFavorites_filter simp del: set_map)
  from out sb' buckets sel fav show ?thesis by blast
qed

theorem delete_clears_buckets_witness:
  "(case deleteClick
           (initialHome\<lparr>selectedPath := Some ''a.py''\<rparr> :: (nat, nat) home) ''a.py'' (Inr ())
           (Inr [\<lparr>name = ''b'', path = ''b.py'', updated_at = []\<rparr>])
           (initialHome\<lparr>selectedPath := Some ''a.py'', codeByStrategy := [''a.py'' \<mapsto> ''X=1''],
                         backtestByStrategy := [''a.py'' \<mapsto> 7]\<rparr>,
            initialSidebar\<lparr>favorites := [''a.py'', ''b.py'']\<rparr>)
    of (st', sb', out) \<Rightarrow>
      codeByStrategy st' ''a.py'' = None \<and> backtestByStrategy st' ''a.py'' = None
      \<and> selectedPath st' = Some ''b.py''
      \<and> ''a.py'' \<notin> set (favorites (reconcileFavorites (strategies st') sb')))"
proof -
  let ?cl = "initialHome\<lparr>selectedPath := Some ''a.py''\<rparr> :: (nat, nat) home"
  let ?h = "initialHome\<lparr>selectedPath := Some ''a.py'', codeByStrategy := [''a.py'' \<mapsto> ''X=1''],
                         backtestByStrategy := [''a.py'' \<mapsto> (7::nat)]\<rparr> :: (nat, nat) home"
  let ?sb = "initialSidebar\<lparr>favorites := [''a.py'', ''b.py'']\<rparr>"
  let ?files = "[\<lparr>name = ''b'', path = ''b.py'', updated_at = []\<rparr>]"
  obtain st' sb' out where
    fin: "deleteClick ?cl ''a.py'' (Inr ()) (Inr ?files) (?h, ?sb) = (st', sb', out)"
    using prod_cases3 by blast
  have "codeByStrategy st' ''a.py'' = None \<and> backtestByStrategy st' ''a.py'' = None
      \<and> selectedPath st' = Some ''b.py''
      \<and> ''a.py'' \<notin> set (favorites (reconcileFavorites (strategies st') sb'))"
    using delete_clears_buckets [OF fin]
    by (auto simp: initialHome_def)
  then show ?thesis
    unfolding fin by simp
qed

section \<open>Saving\<close>

lemma resetRanges_snoc:
  "resetRanges (ps @ [p]) = (resetRanges ps)(pname p \<mapsto>
     \<lparr>range_min = suggested_min p, range_max = suggested_max p, range_type = ptype p\<rparr>)"
  by (simp add: resetRanges_def)

lemma dom_resetRanges: "dom (resetRanges ps) = set (map pname ps)"
proof (induction ps rule: rev_induct)
  case Nil
  show ?case by (simp add: resetRanges_def)
next
  case (snoc q qs)
  have "dom (resetRanges (qs @ [q])) = insert (pname q) (dom (resetRanges qs))"
    by (simp only: resetRanges_snoc dom_fun_upd) simp
  with snoc show ?case by simp
qed

lemma resetRanges_distinct:
  "distinct (map pname ps) \<Longrightarrow> p \<in> set ps \<Longrightarrow>
   resetRanges ps (pname p) =
     Some \<lparr>range_min = suggested_min p, range_max = suggested_max p, range_type = ptype p\<rparr>"
proof (induction ps rule: rev_induct)
  case Nil
  then show ?case by simp
next
  case (snoc q qs)
  show ?case
  proof (cases "p = q")
    case True
    then show ?thesis by (simp add: resetRanges_snoc)
  next
    case False
    with snoc.prems have mem: "p \<in> set qs" and dist: "distinct (map pname qs)"
      and fresh: "pname q \<notin> pname ` set qs" by auto
    from mem fresh have "pname p \<noteq> pname q" by (metis imageI)
    with snoc.IH [OF dist mem] show ?thesis by (simp only: resetRanges_snoc) simp
  qed
qed

lemma saveStrategy_ok:
  "p \<noteq> [] \<Longrightarrow> selectedPath cl = Some p \<Longrightarrow>
   fst (saveStrategy cl (Inr ()) (Inr meta) listed st) =
     (case listed of
        Inl err \<Rightarrow> saveStrategy_params p meta (saveStrategy_posted cl p st)
      | Inr files \<Rightarrow>
          reloadStrategies_loaded cl files (saveStrategy_params p meta (saveStrategy_posted cl p st)))"
  by (simp add: saveStrategy_def reloadStrategies_def split: sum.splits)

text \<open>
  Claim C3. A save of the strategy \<open>X\<close> that the remote service acknowledges and whose
  parameter request succeeds removes the backtest entry of \<open>X\<close>, sets the tuning entry of
  \<open>X\<close> to the ranges built from the parameters just fetched (per parameter its suggested
  minimum and maximum and its type), stores the saved text as the code of \<open>X\<close>, and
  leaves, in all five buckets, the entry of every other strategy as it was; the outcome
  of the registry reload that ends the save does not matter.
\<close>

theorem save_invalidates_only_own_entries:
  assumes sel: "selectedPath cl = Some X" and ne: "X \<noteq> []"
    and fin: "st' = fst (saveStrategy cl (Inr ()) (Inr meta) listed st)"
  shows "backtestByStrategy st' X = None
    \<and> mlByStrategy st' X =
        Some \<lparr>resultText = [], bestRun = None, error = [], ranges = resetRanges (paramsOf meta)\<rparr>
    \<and> codeByStrategy st' X = Some (code cl)
    \<and> paramSpecsByStrategy st' X = Some (paramsOf meta)
    \<and> (distinct (map pname (paramsOf meta)) \<longrightarrow>
         (\<forall>q \<in> set (paramsOf meta). resetRanges (paramsOf meta) (pname q) =
            Some \<lparr>range_min = suggested_min q, range_max = suggested_max q, range_type = ptype q\<rparr>))
    \<and> dom (resetRanges (paramsOf meta)) = set (map pname (paramsOf meta))
    \<and> (\<forall>Y. Y \<noteq> X \<longrightarrow>
         codeByStrategy st' Y = codeByStrategy st Y
         \<and> backtestByStrategy st' Y = backtestByStrategy st Y
         \<and> mlByStrategy st' Y = mlByStrategy st Y
         \<and> paperByStrategy st' Y = paperByStrategy st Y
         \<and> paramSpecsByStrategy st' Y = paramSpecsByStrategy st Y)"
proof -
  let ?st2 = "saveStrategy_params X meta (saveStrategy_posted cl X st)"
  have c: "codeByStrategy st' = codeByStrategy ?st2"
    and b: "backtestByStrategy st' = backtestByStrategy ?st2"
    and m: "mlByStrategy st' = mlByStrategy ?st2"
    and p: "paperByStrategy st' = paperByStrategy ?st2"
    and s: "paramSpecsByStrategy st' = paramSpecsByStrategy ?st2"
    unfolding fin saveStrategy_ok [OF ne sel]
    by (simp_all add: reload_caches split: sum.splits)
  have own: "backtestByStrategy ?st2 X = None
    \<and> mlByStrategy ?st2 X =
        Some \<lparr>resultText = [], bestRun = None, error = [], ranges = resetRanges (paramsOf meta)\<rparr>
    \<and> codeByStrategy ?st2 X = Some (code cl)
    \<and> paramSpecsByStrategy ?st2 X = Some (paramsOf meta)"
    by (simp add: saveStrategy_params_def saveStrategy_posted_def Let_def)
  have others: "\<forall>Y. Y \<noteq> X \<longrightarrow>
         codeByStrategy ?st2 Y = codeByStrategy st Y
         \<and> backtestByStrategy ?st2 Y = backtestByStrategy st Y
         \<and> mlByStrategy ?st2 Y = mlByStrategy st Y
         \<and> paperByStrategy ?st2 Y = paperByStrategy st Y
         \<and> paramSpecsByStrategy ?st2 Y = paramSpecsByStrategy st Y"
    by (simp add: saveStrategy_params_def saveStrategy_posted_def Let_def)
  have rng: "distinct (map pname (paramsOf meta)) \<longrightarrow>
         (\<forall>q \<in> set (paramsOf meta). resetRanges (paramsOf meta) (pname q) =
            Some \<lparr>range_min = suggested_min q, range_max = suggested_max q, range_type = ptype q\<rparr>)"
    using resetRanges_distinct by blast
  show ?thesis
    unfolding c b m p s using own others rng dom_resetRanges by blast
qed

text \<open>The scenario of the specification: \<open>a.py\<close> is edited to \<open>X=1\<close> and saved while it
  has a backtest and \<open>b.py\<close> has one too.\<close>

theorem save_invalidates_only_own_entries_witness:
  "(let cl = (initialHome\<lparr>selectedPath := Some ''a.py'', code := ''X=1'',
                backtestByStrategy := [''a.py'' \<mapsto> 1, ''b.py'' \<mapsto> 2]\<rparr> :: (nat, nat) home);
        fast = \<lparr>pname = ''fast'', ptype = PInt, pdefault = 10, suggested_min = 5, suggested_max = 40\<rparr>;
        st' = fst (saveStrategy cl (Inr ()) (Inr (Some [fast])) (Inl \<lparr>ename = ''Error'', message = ''down''\<rparr>) cl)
    in selectedPath cl = Some ''a.py'' \<and> ''a.py'' \<noteq> [] \<and> ''b.py'' \<noteq> ''a.py''
       \<and> backtestByStrategy st' ''a.py'' = None
       \<and> backtestByStrategy st' ''b.py'' = Some 2
       \<and> codeByStrategy st' ''a.py'' = Some ''X=1''
       \<and> map_option ranges (mlByStrategy st' ''a.py'') =
            Some [''fast'' \<mapsto> \<lparr>range_min = 5, range_max = 40, range_type = PInt\<rparr>])"
proof -
  let ?cl = "initialHome\<lparr>selectedPath := Some ''a.py'', code := ''X=1'',
                backtestByStrategy := [''a.py'' \<mapsto> 1, ''b.py'' \<mapsto> 2]\<rparr> :: (nat, nat) home"
  let ?fast = "\<lparr>pname = ''fast'', ptype = PInt, pdefault = 10, suggested_min = 5, suggested_max = 40\<rparr>"
  let ?st' = "fst (saveStrategy ?cl (Inr ()) (Inr (Some [?fast])) (Inl \<lparr>ename = ''Error'', message = ''down''\<rparr>) ?cl)"
  have sel: "selectedPath ?cl = Some ''a.py''" by simp
  have ne: "''a.py'' \<noteq> []" by simp
  have "backtestByStrategy ?st' ''a.py'' = None
       \<and> backtestByStrategy ?st' ''b.py'' = Some 2
       \<and> codeByStrategy ?st' ''a.py'' = Some ''X=1''
       \<and> map_option ranges (mlByStrategy ?st' ''a.py'') =
            Some [''fast'' \<mapsto> \<lparr>range_min = 5, range_max = 40, range_type = PInt\<rparr>]"
    using save_invalidates_only_own_entries [OF sel ne refl, of "Some [?fast]" "Inl \<lparr>ename = ''Error'', message = ''down''\<rparr>" ?cl]
    by (simp add: paramsOf_def resetRanges_def initialHome_def)
  then show ?thesis
    by (simp add: Let_def)
qed

section \<open>The tuning flow\<close>

lemma dom_rangesPayload: "dom (rangesPayload rs) = dom rs"
  by (auto simp: rangesPayload_def split: option.splits)

lemma runOptimization_requests:
  "snd (fst (runOptimization cl optimized backtested st)) =
     (case selectedPath cl of
        None \<Rightarrow> []
      | Some p \<Rightarrow>
          if p = [] \<or> dom (rangesPayload (mlRanges cl)) = {} then []
          else (case optimized of
                  Inl err \<Rightarrow> [PostOptimize p (rangesPayload (mlRanges cl))]
                | Inr res \<Rightarrow> [PostOptimize p (rangesPayload (mlRanges cl)),
                              PostBacktest p (Some (best_params res))]))"
  by (simp add: runOptimization_def runOptimization_start_def runOptimization_optimized_def
      split: option.splits sum.splits)

lemma runOptimization_undisturbed:
  "runOptimization cl optimized backtested st =
     runOptimization_during cl optimized backtested (\<lambda>s. s) (\<lambda>s. s) st"
  by (simp add: runOptimization_def runOptimization_during_def)

lemma runOptimization_during_fulfilled:
  assumes "selectedPath cl = Some X" and "X \<noteq> []" and "mlRanges cl \<noteq> Map.empty"
  shows "runOptimization_during cl (Inr res) (Inr best) during1 during2 st =
           ((runOptimization_done cl X res best
               (during2 (fst (runOptimization_optimized X res
                  (during1 (fst (runOptimization_start cl X st)))))),
             [PostOptimize X (rangesPayload (mlRanges cl)), PostBacktest X (Some (best_params res))]),
            Inr ())"
  using assms
  by (simp add: runOptimization_during_def runOptimization_start_def runOptimization_optimized_def
      dom_rangesPayload)

lemma runOptimization_during_requests:
  assumes "selectedPath cl = Some X" and "X \<noteq> []" and "mlRanges cl \<noteq> Map.empty"
  shows "snd (fst (runOptimization_during cl optimized backtested during1 during2 st)) =
           (case optimized of
              Inl err \<Rightarrow> [PostOptimize X (rangesPayload (mlRanges cl))]
            | Inr res \<Rightarrow> [PostOptimize X (rangesPayload (mlRanges cl)),
                          PostBacktest X (Some (best_params res))])"
  using assms
  by (simp add: runOptimization_during_def runOptimization_start_def runOptimization_optimized_def
      dom_rangesPayload split: sum.splits)

text \<open>
  Claim C5. A tuning flow requested while \<open>X\<close> is the active strategy and ranges are
  configured, with any other events arriving while its requests are pending: if the
  optimization is rejected, the optimization request is the only one issued; if it
  answers, the backtest request follows it and carries the best parameters of that
  answer. When the backtest answers too, the flow ends with the tuning entry of \<open>X\<close>
  holding the result text, the best run and the ranges of the requesting render, while
  the tuning entry of every other strategy, and the active id, are what the events in
  between had made them (\<open>mid\<close> is the state those events left just before the answer):
  the result is written to the entry of \<open>X\<close> whichever strategy is active by then.
\<close>

theorem tuning_result_goes_to_originating_strategy:
  assumes sel: "selectedPath cl = Some X" and ne: "X \<noteq> []" and rng: "mlRanges cl \<noteq> Map.empty"
    and mid: "mid = during2 (fst (runOptimization_optimized X res
                (during1 (fst (runOptimization_start cl X st)))))"
    and fin: "final = fst (fst (runOptimization_during cl (Inr res) (Inr best) during1 during2 st))"
  shows "snd (fst (runOptimization_during cl (Inl err) backtested during1 during2 st)) =
           [PostOptimize X (rangesPayload (mlRanges cl))]
    \<and> snd (fst (runOptimization_during cl (Inr res) backtested during1 during2 st)) =
           [PostOptimize X (rangesPayload (mlRanges cl)), PostBacktest X (Some (best_params res))]
    \<and> mlByStrategy final X =
         Some \<lparr>resultText = json res, bestRun = Some best, error = [], ranges = mlRanges cl\<rparr>
    \<and> (\<forall>Y. Y \<noteq> X \<longrightarrow> mlByStrategy final Y = mlByStrategy mid Y)
    \<and> selectedPath final = selectedPath mid"
proof -
  have final: "final = runOptimization_done cl X res best mid"
    unfolding fin mid runOptimization_during_fulfilled [OF sel ne rng] by simp
  show ?thesis
    unfolding final runOptimization_during_requests [OF sel ne rng]
    by (simp add: runOptimization_done_def)
qed

text \<open>The scenario of the specification: tuning is requested for \<open>a.py\<close> with the range
  \<open>fast: [5, 40]\<close>; while the backtest with the best parameters is pending the user
  switches to \<open>b.py\<close>.\<close>

theorem tuning_result_goes_to_originating_strategy_witness:
  "(let rng = [''fast'' \<mapsto> \<lparr>range_min = 5, range_max = 40, range_type = PInt\<rparr>];
        cl = (initialHome\<lparr>selectedPath := Some ''a.py'', mlRanges := rng\<rparr> :: (nat, nat) home);
        res = \<lparr>best_value = 3, best_params = [''fast'' \<mapsto> 12], json = ''{}''\<rparr>;
        switch = (\<lambda>s. hydrate (s\<lparr>selectedPath := Some ''b.py''\<rparr>) (s\<lparr>selectedPath := Some ''b.py''\<rparr>));
        final = fst (fst (runOptimization_during cl (Inr res) (Inr 9) (\<lambda>s. s) switch cl))
    in selectedPath cl = Some ''a.py'' \<and> ''a.py'' \<noteq> [] \<and> mlRanges cl \<noteq> Map.empty
       \<and> ''b.py'' \<noteq> ''a.py''
       \<and> snd (fst (runOptimization_during cl (Inr res) (Inr 9) (\<lambda>s. s) switch cl)) =
            [PostOptimize ''a.py'' (rangesPayload rng), PostBacktest ''a.py'' (Some [''fast'' \<mapsto> 12])]
       \<and> selectedPath final = Some ''b.py''
       \<and> map_option bestRun (mlByStrategy final ''a.py'') = Some (Some 9)
       \<and> mlByStrategy final ''b.py'' = None)"
proof -
  let ?rng = "[''fast'' \<mapsto> \<lparr>range_min = 5, range_max = 40, range_type = PInt\<rparr>]"
  let ?cl = "initialHome\<lparr>selectedPath := Some ''a.py'', mlRanges := ?rng\<rparr> :: (nat, nat) home"
  let ?res = "\<lparr>best_value = 3, best_params = [''fast'' \<mapsto> 12], json = ''{}''\<rparr>"
  let ?switch = "\<lambda>s :: (nat, nat) home.
        hydrate (s\<lparr>selectedPath := Some ''b.py''\<rparr>) (s\<lparr>selectedPath := Some ''b.py''\<rparr>)"
  let ?mid = "?switch (fst (runOptimization_optimized ''a.py'' ?res
                ((\<lambda>s. s) (fst (runOptimization_start ?cl ''a.py'' ?cl)))))"
  let ?final = "fst (fst (runOptimization_during ?cl (Inr ?res) (Inr 9) (\<lambda>s. s) ?switch ?cl))"
  have sel: "selectedPath ?cl = Some ''a.py''" by simp
  have ne: "''a.py'' \<noteq> []" by simp
  have rng: "mlRanges ?cl \<noteq> Map.empty" by simp
  have other: "''b.py'' \<noteq> ''a.py''" by simp
  have mid: "selectedPath ?mid = Some ''b.py''" "mlByStrategy ?mid ''b.py'' = None"
    by (simp_all add: hydrate_def runOptimization_optimized_def runOptimization_start_def
        dom_rangesPayload initialHome_def)
  note facts = tuning_result_goes_to_originating_strategy [OF sel ne rng refl refl,
      where res = ?res and best = 9 and ?during1.0 = "\<lambda>s. s" and ?during2.0 = ?switch and st = ?cl
      and backtested = "Inr 9"]
  from facts mid other have
    "snd (fst (runOptimization_during ?cl (Inr ?res) (Inr 9) (\<lambda>s. s) ?switch ?cl)) =
       [PostOptimize ''a.py'' (rangesPayload ?rng), PostBacktest ''a.py'' (Some [''fast'' \<mapsto> 12])]"
    "selectedPath ?final = Some ''b.py''"
    "map_option bestRun (mlByStrategy ?final ''a.py'') = Some (Some 9)"
    "mlByStrategy ?final ''b.py'' = None"
    by simp_all
  with sel ne rng other show ?thesis
    unfolding Let_def by simp
qed

text \<open>
  Claim C8 as stated fails in its last part: the entry written for an empty ranges map
  takes \<open>resultText\<close> and \<open>bestRun\<close> from the displayed state (\<open>optuna\<close>, \<open>mlBestResult\<close>),
  not from the entry. After a finished tuning run for \<open>a.py\<close>, a save that finds no
  parameters resets the entry of \<open>a.py\<close> to an empty result and empty ranges but leaves
  the display alone; the next tuning run then replaces the entry's empty result by the
  displayed one.
\<close>

theorem empty_ranges_overwrite_counterexample:
  "(let rng = [''fast'' \<mapsto> \<lparr>range_min = 5, range_max = 40, range_type = PInt\<rparr>];
        cl = (initialHome\<lparr>selectedPath := Some ''a.py'', mlRanges := rng\<rparr> :: (nat, nat) home);
        res = \<lparr>best_value = 3, best_params = [''fast'' \<mapsto> 12], json = ''R''\<rparr>;
        tuned = fst (fst (runOptimization cl (Inr res) (Inr 9) cl));
        saved = fst (saveStrategy tuned (Inr ()) (Inr (Some []))
                       (Inr [\<lparr>name = ''a'', path = ''a.py'', updated_at = []\<rparr>]) tuned);
        again = runOptimization saved (Inr res) (Inr 9) saved
    in mlRanges saved = Map.empty \<and> snd (fst again) = []
       \<and> map_option resultText (mlByStrategy saved ''a.py'') = Some []
       \<and> map_option bestRun (mlByStrategy saved ''a.py'') = Some None
       \<and> map_option resultText (mlByStrategy (fst (fst again)) ''a.py'') = Some ''R''
       \<and> map_option bestRun (mlByStrategy (fst (fst again)) ''a.py'') = Some (Some 9))"
  by (simp add: Let_def runOptimization_def runOptimization_start_def runOptimization_optimized_def
      runOptimization_done_def saveStrategy_def saveStrategy_posted_def saveStrategy_params_def
      reloadStrategies_def reloadStrategies_loaded_def noPath_def paramsOf_def resetRanges_def
      dom_rangesPayload initialHome_def)

lemma runOptimization_empty:
  assumes "selectedPath cl = Some X" and "X \<noteq> []" and "mlRanges cl = Map.empty"
  shows "runOptimization cl optimized backtested st =
           ((st\<lparr>mlError := noParamsText,
                mlByStrategy := (mlByStrategy st)(X \<mapsto>
                  \<lparr>resultText = optuna cl, bestRun = mlBestResult cl,
                   error = noParamsText, ranges = mlRanges cl\<rparr>)\<rparr>, []), Inr ())"
  using assms by (simp add: runOptimization_def runOptimization_start_def dom_rangesPayload)

text \<open>
  Claim C8, amended. A tuning run requested for the active strategy \<open>X\<close> while the
  configured ranges map is empty issues no request and settles normally; it shows the
  fixed error text and writes to the tuning entry of \<open>X\<close> exactly what the \<open>catch\<close> block
  writes for a transport failure with that message: the error text, the displayed result
  text and best run, and the displayed ranges. The entry's previous result text and best
  run stay in place when they are the displayed ones. No other tuning entry changes.
\<close>

theorem empty_ranges_fail_locally:
  assumes sel: "selectedPath cl = Some X" and ne: "X \<noteq> []" and emp: "mlRanges cl = Map.empty"
    and fin: "runOptimization cl optimized backtested st = ((st', reqs), settled)"
  shows "reqs = [] \<and> settled = Inr ()
    \<and> mlError st' = noParamsText
    \<and> mlByStrategy st' X =
        Some \<lparr>resultText = optuna cl, bestRun = mlBestResult cl,
              error = noParamsText, ranges = mlRanges cl\<rparr>
    \<and> mlByStrategy st' =
        mlByStrategy (runOptimization_catch cl X \<lparr>ename = ''Error'', message = noParamsText\<rparr> st)
    \<and> mlError st' =
        mlError (runOptimization_catch cl X \<lparr>ename = ''Error'', message = noParamsText\<rparr> st)
    \<and> (\<forall>e. mlByStrategy st X = Some e \<and> resultText e = optuna cl \<and> bestRun e = mlBestResult cl \<longrightarrow>
          map_option resultText (mlByStrategy st' X) = Some (resultText e)
          \<and> map_option bestRun (mlByStrategy st' X) = Some (bestRun e))
    \<and> (\<forall>Y. Y \<noteq> X \<longrightarrow> mlByStrategy st' Y = mlByStrategy st Y)"
proof -
  from fin have st': "st' = st\<lparr>mlError := noParamsText,
                mlByStrategy := (mlByStrategy st)(X \<mapsto>
                  \<lparr>resultText = optuna cl, bestRun = mlBestResult cl,
                   error = noParamsText, ranges = mlRanges cl\<rparr>)\<rparr>"
    and reqs: "reqs = []" and settled: "settled = Inr ()"
    unfolding runOptimization_empty [OF sel ne emp] by simp_all
  have msg: "errText \<lparr>ename = ''Error'', message = noParamsText\<rparr> = noParamsText"
    by (simp add: errText_def noParamsText_def)
  show ?thesis
    unfolding st' reqs settled
    by (simp add: runOptimization_catch_def msg)
qed

theorem empty_ranges_fail_locally_witness:
  "(let cl = (initialHome\<lparr>selectedPath := Some ''a.py'', optuna := ''R'',
                mlByStrategy := [''a.py'' \<mapsto> \<lparr>resultText = ''R'', bestRun = None, error = [],
                                              ranges = Map.empty\<rparr>]\<rparr> :: (nat, nat) home)
    in selectedPath cl = Some ''a.py'' \<and> ''a.py'' \<noteq> [] \<and> mlRanges cl = Map.empty
       \<and> (case runOptimization cl (Inl \<lparr>ename = ''Error'', message = ''unused''\<rparr>)
                 (Inl \<lparr>ename = ''Error'', message = ''unused''\<rparr>) cl
           of ((st', reqs), settled) \<Rightarrow>
             reqs = [] \<and> mlError st' = noParamsText
             \<and> map_option error (mlByStrategy st' ''a.py'') = Some noParamsText
             \<and> map_option resultText (mlByStrategy st' ''a.py'') = Some ''R''))"
proof -
  let ?cl = "initialHome\<lparr>selectedPath := Some ''a.py'', optuna := ''R'',
                mlByStrategy := [''a.py'' \<mapsto> \<lparr>resultText = ''R'', bestRun = None, error = [],
                                              ranges = Map.empty\<rparr>]\<rparr> :: (nat, nat) home"
  let ?err = "Inl \<lparr>ename = ''Error'', message = ''unused''\<rparr>"
  obtain st' reqs settled where
    fin: "runOptimization ?cl ?err ?err ?cl = ((st', reqs), settled)"
    by (metis surj_pair)
  have sel: "selectedPath ?cl = Some ''a.py''" by simp
  have ne: "''a.py'' \<noteq> []" by simp
  have emp: "mlRanges ?cl = Map.empty" by (simp add: initialHome_def)
  note facts = empty_ranges_fail_locally [OF sel ne emp fin]
  from facts have r: "reqs = []" and e: "mlError st' = noParamsText"
    and m: "mlByStrategy st' ''a.py'' =
        Some \<lparr>resultText = optuna ?cl, bestRun = mlBestResult ?cl,
              error = noParamsText, ranges = mlRanges ?cl\<rparr>"
    by blast+
  from r e m sel ne emp show ?thesis
    unfolding Let_def fin by simp
qed

section \<open>Failures of remote calls\<close>

text \<open>
  Claim C9 as stated fails for save (and in the same way for the backtest run):
  \<open>saveStrategy\<close> has no \<open>try\<close>, and the save button drops the promise, so a rejected
  write is an unhandled rejection and leaves no trace in the state.
\<close>

theorem save_failure_unhandled_counterexample:
  "onSave (initialHome\<lparr>selectedPath := Some ''a.py'', code := ''X=1''\<rparr> :: (nat, nat) home)
      (Inl \<lparr>ename = ''Error'', message = ''POST /strategies failed (500): boom''\<rparr>)
      (Inr None) (Inr [])
      (initialHome\<lparr>selectedPath := Some ''a.py'', code := ''X=1''\<rparr>)
   = (initialHome\<lparr>selectedPath := Some ''a.py'', code := ''X=1''\<rparr>,
      Some \<lparr>ename = ''Error'', message = ''POST /strategies failed (500): boom''\<rparr>)"
  by (simp add: onSave_def dropped_def saveStrategy_def)

lemma runOptimization_settles: "snd (runOptimization cl optimized backtested st) = Inr ()"
  by (simp add: runOptimization_def split: option.splits prod.splits sum.splits)

lemma runOptimization_first_fails:
  assumes "selectedPath cl = Some X" and "X \<noteq> []" and "mlRanges cl \<noteq> Map.empty"
  shows "fst (fst (runOptimization cl (Inl err) backtested st)) =
           runOptimization_catch cl X err (st\<lparr>mlLoading := True, mlError := [], mlBestResult := None\<rparr>)"
  using assms
  by (simp add: runOptimization_def runOptimization_start_def dom_rangesPayload)

lemma runOptimization_second_fails:
  assumes "selectedPath cl = Some X" and "X \<noteq> []" and "mlRanges cl \<noteq> Map.empty"
  shows "fst (fst (runOptimization cl (Inr res) (Inl err) st)) =
           runOptimization_catch cl X err
             (st\<lparr>mlLoading := True, mlError := [], mlBestResult := None, optuna := json res\<rparr>)"
  using assms
  by (simp add: runOptimization_def runOptimization_start_def runOptimization_optimized_def
      dom_rangesPayload)

lemma catch_records:
  "mlError (runOptimization_catch cl X err st) = errText err
   \<and> map_option error (mlByStrategy (runOptimization_catch cl X err st) X) = Some (errText err)"
  by (simp add: runOptimization_catch_def)

text \<open>
  Claim C9, amended. With \<open>X\<close> the active strategy of the render the handler comes from:
  a tuning run never rejects, and a failure of either of its two calls becomes the tuning
  error string and the error of the tuning entry of \<open>X\<close>; a paper refresh never rejects,
  and its failure becomes the paper error string and the error of the paper entry of
  \<open>X\<close>; a failed paper start through the Alpaca button is caught by the button's handler
  and becomes the paper error string. A failure in a rename or a delete, of the request
  itself or of the registry reload that follows it, rejects to the sidebar, which catches
  it and shows the text in an alert. A failure in a save, of the write, of the parameter
  request or of the registry reload, and a failure of a backtest run are caught nowhere:
  the rejection is unhandled. In these four operations the failure is not turned into
  state: the state is the one the operation had reached before the failing call.
\<close>

theorem failures_by_operation:
  assumes sel: "selectedPath cl = Some X" and ne: "X \<noteq> []"
  shows "snd (onRunOptimization cl optimized backtested st) = None
    \<and> (mlRanges cl \<noteq> Map.empty \<longrightarrow>
         mlError (fst (onRunOptimization cl (Inl err) backtested st)) = errText err
         \<and> map_option error (mlByStrategy (fst (onRunOptimization cl (Inl err) backtested st)) X)
             = Some (errText err)
         \<and> mlError (fst (onRunOptimization cl (Inr res) (Inl err) st)) = errText err
         \<and> map_option error (mlByStrategy (fst (onRunOptimization cl (Inr res) (Inl err) st)) X)
             = Some (errText err))
    \<and> snd (refreshPaperState cl answered st) = Inr ()
    \<and> (paperSession cl \<noteq> [] \<longrightarrow>
         onRefresh cl (Inl err) st = (fst (refreshPaperState cl (Inl err) st), None)
         \<and> paperError (fst (refreshPaperState cl (Inl err) st)) = errText err
         \<and> paperByStrategy (fst (refreshPaperState cl (Inl err) st)) X =
             Some \<lparr>sessionId = paperSession cl, session_error = errText err,
                   session_state = paperState cl\<rparr>)
    \<and> onStartAlpaca cl (Inl err) st =
         (st\<lparr>paperError := errText err, paperState := None\<rparr>, None)
    \<and> commitRename_try clh cls oldPath newPath (Inl err) listed (st, sb) =
         (st, sb, Some (errText err))
    \<and> commitRename_try clh cls oldPath newPath (Inr ()) (Inl err) (st, sb) =
         (renameStrategy_posted oldPath newPath st, sb, Some (errText err))
    \<and> deleteClick clh p (Inl err) listed (st, sb) = (st, sb, Some (errText err))
    \<and> deleteClick clh p (Inr ()) (Inl err) (st, sb) =
         (deleteStrategy_posted p st, sb, Some (errText err))
    \<and> onSave cl (Inl err) fetched listed st = (st, Some err)
    \<and> onSave cl (Inr ()) (Inl err) listed st = (saveStrategy_posted cl X st, Some err)
    \<and> onSave cl (Inr ()) (Inr meta) (Inl err) st =
         (saveStrategy_params X meta (saveStrategy_posted cl X st), Some err)
    \<and> onRunBacktest cl (Inl err) st = (st, Some err)"
proof -
  have opt: "onRunOptimization cl o1 o2 st = (fst (fst (runOptimization cl o1 o2 st)), None)" for o1 o2
  proof -
    obtain a b where "runOptimization cl o1 o2 st = ((a, b), Inr ())"
      using runOptimization_settles [of cl o1 o2 st] by (metis prod.collapse)
    then show ?thesis by (simp add: onRunOptimization_def dropped_def)
  qed
  have tune: "mlRanges cl \<noteq> Map.empty \<longrightarrow>
         mlError (fst (onRunOptimization cl (Inl err) backtested st)) = errText err
         \<and> map_option error (mlByStrategy (fst (onRunOptimization cl (Inl err) backtested st)) X)
             = Some (errText err)
         \<and> mlError (fst (onRunOptimization cl (Inr res) (Inl err) st)) = errText err
         \<and> map_option error (mlByStrategy (fst (onRunOptimization cl (Inr res) (Inl err) st)) X)
             = Some (errText err)"
    unfolding opt fst_conv
    using runOptimization_first_fails [OF sel ne] runOptimization_second_fails [OF sel ne] catch_records
    by metis
  have refresh_ok: "snd (refreshPaperState cl answered st) = Inr ()"
    by (simp add: refreshPaperState_def split: option.splits)
  have refresh: "paperSession cl \<noteq> [] \<longrightarrow>
         onRefresh cl (Inl err) st = (fst (refreshPaperState cl (Inl err) st), None)
         \<and> paperError (fst (refreshPaperState cl (Inl err) st)) = errText err
         \<and> paperByStrategy (fst (refreshPaperState cl (Inl err) st)) X =
             Some \<lparr>sessionId = paperSession cl, session_error = errText err,
                   session_state = paperState cl\<rparr>"
    using sel ne
    by (simp add: onRefresh_def caughtAsPaperError_def refreshPaperState_def refreshTarget_def
        noPath_def refreshPaperState_begin_def refreshPaperState_done_def)
  have alpaca: "onStartAlpaca cl (Inl err) st =
         (st\<lparr>paperError := errText err, paperState := None\<rparr>, None)"
    using sel ne
    by (simp add: onStartAlpaca_def caughtAsPaperError_def startPaper_def startPaper_clicked_def)
  have ren1: "commitRename_try clh cls oldPath newPath (Inl err) listed (st, sb) =
         (st, sb, Some (errText err))"
    by (simp add: commitRename_try_def renameStrategy_def)
  have ren2: "commitRename_try clh cls oldPath newPath (Inr ()) (Inl err) (st, sb) =
         (renameStrategy_posted oldPath newPath st, sb, Some (errText err))"
    by (rule commitRename_try_reload_rejected)
  have del1: "deleteClick clh p (Inl err) listed (st, sb) = (st, sb, Some (errText err))"
    by (simp add: deleteClick_def deleteStrategy_def)
  have del2: "deleteClick clh p (Inr ()) (Inl err) (st, sb) =
         (deleteStrategy_posted p st, sb, Some (errText err))"
    by (simp add: deleteClick_def deleteStrategy_def reloadStrategies_def)
  have save1: "onSave cl (Inl err) fetched listed st = (st, Some err)"
    using sel ne by (simp add: onSave_def dropped_def saveStrategy_def)
  have save2: "onSave cl (Inr ()) (Inl err) listed st = (saveStrategy_posted cl X st, Some err)"
    using sel ne by (simp add: onSave_def dropped_def saveStrategy_def)
  have save3: "onSave cl (Inr ()) (Inr meta) (Inl err) st =
         (saveStrategy_params X meta (saveStrategy_posted cl X st), Some err)"
    using sel ne by (simp add: onSave_def dropped_def saveStrategy_def reloadStrategies_def)
  have bt: "onRunBacktest cl (Inl err) st = (st, Some err)"
    using sel ne by (simp add: onRunBacktest_def dropped_def runBacktest_def)
  from opt tune refresh_ok refresh alpaca ren1 ren2 del1 del2 save1 save2 save3 bt
  show ?thesis by simp
qed

text \<open>A network failure at every call: the tuning run and the refresh record it, the
  save rejects; a save whose parameter request fails has written the code cache and
  rejects; a delete whose reload fails has cleared the caches and alerts.\<close>

theorem failures_by_operation_witness:
  "(let cl = (initialHome\<lparr>selectedPath := Some ''a.py'', paperSession := ''s1'', code := ''X=1'',
                codeByStrategy := [''a.py'' \<mapsto> ''X=0''],
                mlRanges := [''fast'' \<mapsto> \<lparr>range_min = 5, range_max = 40, range_type = PInt\<rparr>]\<rparr>
              :: (nat, nat) home);
        err = \<lparr>ename = ''TypeError'', message = ''Failed to fetch''\<rparr>
    in selectedPath cl = Some ''a.py'' \<and> ''a.py'' \<noteq> [] \<and> mlRanges cl \<noteq> Map.empty
       \<and> paperSession cl \<noteq> []
       \<and> snd (onRunOptimization cl (Inl err) (Inl err) cl) = None
       \<and> mlError (fst (onRunOptimization cl (Inl err) (Inl err) cl)) = ''Failed to fetch''
       \<and> paperError (fst (refreshPaperState cl (Inl err) cl)) = ''Failed to fetch''
       \<and> snd (onSave cl (Inl err) (Inl err) (Inl err) cl) = Some err
       \<and> snd (onSave cl (Inr ()) (Inl err) (Inl err) cl) = Some err
       \<and> codeByStrategy (fst (onSave cl (Inr ()) (Inl err) (Inl err) cl)) ''a.py'' = Some ''X=1''
       \<and> (case deleteClick cl ''a.py'' (Inr ()) (Inl err) (cl, initialSidebar) of
             (st', sb', out) \<Rightarrow> out = Some ''Failed to fetch'' \<and> codeByStrategy st' ''a.py'' = None))"
proof -
  let ?cl = "initialHome\<lparr>selectedPath := Some ''a.py'', paperSession := ''s1'', code := ''X=1'',
                codeByStrategy := [''a.py'' \<mapsto> ''X=0''],
                mlRanges := [''fast'' \<mapsto> \<lparr>range_min = 5, range_max = 40, range_type = PInt\<rparr>]\<rparr>
              :: (nat, nat) home"
  let ?err = "\<lparr>ename = ''TypeError'', message = ''Failed to fetch''\<rparr>"
  have sel: "selectedPath ?cl = Some ''a.py''" by simp
  have ne: "''a.py'' \<noteq> []" by simp
  have rng: "mlRanges ?cl \<noteq> Map.empty" by simp
  have ses: "paperSession ?cl \<noteq> []" by simp
  have msg: "errText ?err = ''Failed to fetch''" by (simp add: errText_def)
  note facts = failures_by_operation [OF sel ne, where optimized = "Inl ?err"
      and backtested = "Inl ?err" and st = ?cl and err = ?err and fetched = "Inl ?err"
      and listed = "Inl ?err" and clh = ?cl and p = "''a.py''" and sb = initialSidebar]
  from facts rng ses have
    "snd (onRunOptimization ?cl (Inl ?err) (Inl ?err) ?cl) = None"
    "mlError (fst (onRunOptimization ?cl (Inl ?err) (Inl ?err) ?cl)) = errText ?err"
    "paperError (fst (refreshPaperState ?cl (Inl ?err) ?cl)) = errText ?err"
    "onSave ?cl (Inl ?err) (Inl ?err) (Inl ?err) ?cl = (?cl, Some ?err)"
    "onSave ?cl (Inr ()) (Inl ?err) (Inl ?err) ?cl = (saveStrategy_posted ?cl ''a.py'' ?cl, Some ?err)"
    "deleteClick ?cl ''a.py'' (Inr ()) (Inl ?err) (?cl, initialSidebar) =
       (deleteStrategy_posted ''a.py'' ?cl, initialSidebar, Some (errText ?err))"
    by simp_all
  with sel ne rng ses msg show ?thesis
    unfolding Let_def
    by (simp add: saveStrategy_posted_def deleteStrategy_posted_def deleteKey_def)
qed

section \<open>Selection, edits and fetches\<close>

lemma run_Nil: "run pg [] = pg"
  by (simp add: run_def)

lemma run_Cons: "run pg (e # es) = run (step pg e) es"
  by (simp add: run_def)

lemma run_append: "run pg (es @ fs) = run (run pg es) fs"
  by (simp add: run_def)

lemma hydrate_code:
  "selectedPath cl = Some p \<Longrightarrow> p \<noteq> [] \<Longrightarrow> codeByStrategy cl p = Some v \<Longrightarrow>
   code (hydrate cl st) = v"
  by (simp add: hydrate_def Let_def split: option.splits)

lemma hydrate_frame:
  "codeByStrategy (hydrate cl st) = codeByStrategy st"
  "selectedPath (hydrate cl st) = selectedPath st"
  by (simp_all add: hydrate_def Let_def split: option.splits)

lemma select_frame:
  "codeByStrategy (page_home (select p pg)) = codeByStrategy (page_home pg)"
  by (simp add: select_def Let_def hydrate_frame)

lemma select_selected: "selectedPath (page_home (select p pg)) = Some p"
  by (simp add: select_def Let_def hydrate_frame)

lemma params_frame:
  "codeByStrategy (paramsFetched a c meta st) = codeByStrategy st"
  "selectedPath (paramsFetched a c meta st) = selectedPath st"
  "code (paramsFetched a c meta st) = code st"
  "codeByStrategy (paramsFailed a c st) = codeByStrategy st"
  "selectedPath (paramsFailed a c st) = selectedPath st"
  "code (paramsFailed a c st) = code st"
  by (simp_all add: paramsFetched_def paramsFailed_def Let_def)

lemma step_selected:
  "selectedPath (page_home (step pg e)) =
     (case e of Select p \<Rightarrow> Some p | _ \<Rightarrow> selectedPath (page_home pg))"
  by (cases e)
    (simp_all add: select_selected onChange_def codeFetched_def params_frame Let_def
      split: option.splits)

text \<open>Each event changes the cached code of \<open>X\<close> exactly by what it acceptedCommit for \<open>X\<close>.\<close>

lemma step_cache:
  assumes "X \<noteq> []"
  shows "codeByStrategy (page_home (step pg e)) X =
           (case acceptedCommit X pg e of Some v \<Rightarrow> Some v | None \<Rightarrow> codeByStrategy (page_home pg) X)"
proof (cases e)
  case (Select p)
  then show ?thesis by (simp add: select_frame)
next
  case (Edit t)
  with assms show ?thesis
    by (auto simp: onChange_def Let_def split: option.splits)
next
  case (CodeArrived k content)
  then show ?thesis
    by (auto simp: codeFetched_def split: option.splits)
next
  case (CodeRejected k)
  then show ?thesis by simp
next
  case (ParamsArrived k meta)
  then show ?thesis by (simp add: params_frame split: option.splits)
next
  case (ParamsRejected k)
  then show ?thesis by (simp add: params_frame split: option.splits)
qed

lemma run_cache:
  assumes "X \<noteq> []"
  shows "codeByStrategy (page_home (run pg evs)) X =
           (case lastAccepted X pg evs of Some v \<Rightarrow> Some v | None \<Rightarrow> codeByStrategy (page_home pg) X)"
proof (induction evs arbitrary: pg)
  case Nil
  show ?case by (simp add: run_Nil)
next
  case (Cons e es)
  show ?case
    using Cons.IH [of "step pg e"] step_cache [OF assms, of pg e]
    by (simp add: run_Cons split: option.splits)
qed

lemma fetchesLive_step:
  assumes "fetchesLive pg"
  shows "fetchesLive (step pg e)"
proof (cases e)
  case (Select p)
  show ?thesis
  proof (cases "selectedPath (page_home pg) = Some p")
    case True
    with Select assms show ?thesis by (simp add: select_def)
  next
    case False
    from assms have old: "\<And>k q. codeFetches pg k = Some q \<Longrightarrow> k \<le> effectRuns pg"
      by (simp add: fetchesLive_def)
    then have fresh: "codeFetches pg (Suc (effectRuns pg)) = None"
      by (metis Suc_n_not_le_n not_Some_eq)
    show ?thesis
      unfolding Select step.simps fetchesLive_def
      using False old fresh
      by (auto simp: select_def Let_def hydrate_frame needsCode_def le_Suc_eq
          split: option.splits if_splits)
  qed
next
  case (Edit t)
  with assms show ?thesis
    by (auto simp: fetchesLive_def onChange_def Let_def split: option.splits)
next
  case (CodeArrived k content)
  with assms show ?thesis
    by (auto simp: fetchesLive_def codeFetched_def split: option.splits if_splits)
next
  case (CodeRejected k)
  with assms show ?thesis
    by (auto simp: fetchesLive_def split: if_splits)
next
  case (ParamsArrived k meta)
  with assms show ?thesis
    by (auto simp: fetchesLive_def params_frame split: option.splits)
next
  case (ParamsRejected k)
  with assms show ?thesis
    by (auto simp: fetchesLive_def params_frame split: option.splits)
qed

lemma shownIsCached_step:
  assumes live: "fetchesLive pg" and shown: "shownIsCached pg"
  shows "shownIsCached (step pg e)"
proof (cases e)
  case (Select p)
  show ?thesis
  proof (cases "selectedPath (page_home pg) = Some p")
    case True
    with Select shown show ?thesis by (simp add: select_def)
  next
    case False
    with Select show ?thesis
      by (auto simp: shownIsCached_def select_def Let_def hydrate_frame hydrate_code)
  qed
next
  case (Edit t)
  with shown show ?thesis
    by (auto simp: shownIsCached_def onChange_def Let_def split: option.splits)
next
  case (CodeArrived k content)
  with live shown show ?thesis
    by (auto simp: shownIsCached_def fetchesLive_def codeFetched_def split: option.splits if_splits)
next
  case (CodeRejected k)
  with shown show ?thesis by (simp add: shownIsCached_def)
next
  case (ParamsArrived k meta)
  with shown show ?thesis
    by (auto simp: shownIsCached_def params_frame split: option.splits)
next
  case (ParamsRejected k)
  with shown show ?thesis
    by (auto simp: shownIsCached_def params_frame split: option.splits)
qed

lemma invariants_run:
  "fetchesLive pg \<Longrightarrow> shownIsCached pg \<Longrightarrow>
   fetchesLive (run pg evs) \<and> shownIsCached (run pg evs)"
proof (induction evs arbitrary: pg)
  case Nil
  then show ?case by (simp add: run_Nil)
next
  case (Cons e es)
  from Cons.prems have "fetchesLive (step pg e)" and "shownIsCached (step pg e)"
    by (simp_all only: fetchesLive_step shownIsCached_step)
  then show ?case
    unfolding run_Cons by (rule Cons.IH)
qed

lemma invariants_initial:
  "fetchesLive (initialPage :: ('r, 'p) page) \<and> shownIsCached (initialPage :: ('r, 'p) page)"
  by (simp add: fetchesLive_def shownIsCached_def initialPage_def initialHome_def)

lemma invariants_reachable:
  "fetchesLive (run (initialPage :: ('r, 'p) page) evs)
   \<and> shownIsCached (run (initialPage :: ('r, 'p) page) evs)"
  by (rule invariants_run) (simp_all add: invariants_initial)

lemma select_shows_cached:
  assumes "shownIsCached pg" and "X \<noteq> []" and "codeByStrategy (page_home pg) X = Some v"
  shows "code (page_home (select X pg)) = v"
proof (cases "selectedPath (page_home pg) = Some X")
  case True
  with assms show ?thesis by (simp add: select_def shownIsCached_def)
next
  case False
  with assms show ?thesis
    by (simp add: select_def Let_def hydrate_code)
qed

lemma lastAccepted_initial_cache:
  assumes "X \<noteq> []"
  shows "codeByStrategy (page_home (run (initialPage :: ('r, 'p) page) evs)) X =
           lastAccepted X (initialPage :: ('r, 'p) page) evs"
  using run_cache [OF assms, where pg = "initialPage :: ('r, 'p) page" and evs = evs]
  by (simp add: initialPage_def initialHome_def split: option.splits)

lemma select_uncached:
  assumes "X \<noteq> []" and "selectedPath (page_home pg) \<noteq> Some X"
    and "codeByStrategy (page_home pg) X = None"
  shows "code (page_home (select X pg)) = code (page_home pg)
       \<and> codeFetches (select X pg) (effectRuns (select X pg)) = Some X"
  using assms
  by (simp add: select_def Let_def hydrate_def needsCode_def split: option.splits)

text \<open>
  Claim C4 as stated fails: the answer to a fetch counts as a commit only while the
  selection that issued the fetch stands (\<open>if (!active) return\<close>). Here \<open>a.py\<close> is selected
  and left for \<open>b.py\<close> before its code arrives; the fetch for \<open>a.py\<close> then completes with
  \<open>A-code\<close> and the one for \<open>b.py\<close> with \<open>B-code\<close>. The last value committed for
  \<open>a.py\<close> in the words of the claim is \<open>A-code\<close>, but nothing was cached for \<open>a.py\<close>, and
  selecting \<open>a.py\<close> again displays \<open>B-code\<close>.
\<close>

theorem late_fetch_not_shown_counterexample:
  "lastClaimed ''a.py'' (initialPage :: (nat, nat) page)
      [Select ''a.py'', Select ''b.py'', CodeArrived (Suc 0) ''A-code'',
       CodeArrived (Suc (Suc 0)) ''B-code''] = Some ''A-code''
   \<and> code (page_home (step (run (initialPage :: (nat, nat) page)
      [Select ''a.py'', Select ''b.py'', CodeArrived (Suc 0) ''A-code'',
       CodeArrived (Suc (Suc 0)) ''B-code'']) (Select ''a.py''))) = ''B-code''
   \<and> codeByStrategy (page_home (run (initialPage :: (nat, nat) page)
      [Select ''a.py'', Select ''b.py'', CodeArrived (Suc 0) ''A-code'',
       CodeArrived (Suc (Suc 0)) ''B-code''])) ''a.py'' = None"
  by code_simp

text \<open>
  Claim C4, amended. From the initial page, after any finite sequence of selections,
  edits and answers to fetches (of code and of parameters, fulfilled or rejected),
  selecting the strategy \<open>X\<close> displays the last value committed for \<open>X\<close>, where a value is
  committed by an edit made while \<open>X\<close> is selected and by the answer to a fetch for \<open>X\<close>
  that arrives while the selection that issued the fetch is still current; the answer to
  a fetch that arrives after the selection has changed is dropped. When no value has been
  committed for \<open>X\<close> and \<open>X\<close> is not the selected strategy, selecting \<open>X\<close> issues a fetch
  for \<open>X\<close> and leaves the displayed text as it was.
\<close>

theorem reselect_shows_last_committed:
  assumes "X \<noteq> []"
  shows "(\<forall>v. lastAccepted X (initialPage :: ('r, 'p) page) evs = Some v \<longrightarrow>
            code (page_home (step (run (initialPage :: ('r, 'p) page) evs) (Select X))) = v)
    \<and> (lastAccepted X (initialPage :: ('r, 'p) page) evs = None
        \<and> selectedPath (page_home (run (initialPage :: ('r, 'p) page) evs)) \<noteq> Some X \<longrightarrow>
          code (page_home (step (run (initialPage :: ('r, 'p) page) evs) (Select X)))
            = code (page_home (run (initialPage :: ('r, 'p) page) evs))
          \<and> codeFetches (step (run (initialPage :: ('r, 'p) page) evs) (Select X))
               (effectRuns (step (run (initialPage :: ('r, 'p) page) evs) (Select X))) = Some X)"
proof -
  let ?pg = "run (initialPage :: ('r, 'p) page) evs"
  have cache: "codeByStrategy (page_home ?pg) X = lastAccepted X (initialPage :: ('r, 'p) page) evs"
    using assms by (rule lastAccepted_initial_cache)
  have shown: "shownIsCached ?pg"
    by (simp add: invariants_reachable)
  have some: "code (page_home (step ?pg (Select X))) = v"
    if "lastAccepted X (initialPage :: ('r, 'p) page) evs = Some v" for v
  proof -
    from that cache have "codeByStrategy (page_home ?pg) X = Some v" by simp
    with shown assms have "code (page_home (select X ?pg)) = v"
      by (intro select_shows_cached)
    then show ?thesis by simp
  qed
  have none: "code (page_home (step ?pg (Select X))) = code (page_home ?pg)
      \<and> codeFetches (step ?pg (Select X)) (effectRuns (step ?pg (Select X))) = Some X"
    if "lastAccepted X (initialPage :: ('r, 'p) page) evs = None"
      and "selectedPath (page_home ?pg) \<noteq> Some X"
  proof -
    from that(1) cache have "codeByStrategy (page_home ?pg) X = None" by simp
    with assms that(2) show ?thesis
      using select_uncached [of X ?pg] by simp
  qed
  from some none show ?thesis by blast
qed

text \<open>The scenario of the specification: \<open>a.py\<close> is fetched, edited to \<open>X=1\<close>, left for
  \<open>b.py\<close> (whose code arrives) and selected again. And the sequence above, in which
  nothing is committed for \<open>a.py\<close>: selecting it issues the third fetch.\<close>

theorem reselect_shows_last_committed_witness:
  "''a.py'' \<noteq> []
   \<and> lastAccepted ''a.py'' (initialPage :: (nat, nat) page)
        [Select ''a.py'', CodeArrived (Suc 0) ''old'', Edit ''X=1'', Select ''b.py'',
         CodeArrived (Suc (Suc 0)) ''other''] = Some ''X=1''
   \<and> code (page_home (step (run (initialPage :: (nat, nat) page)
        [Select ''a.py'', CodeArrived (Suc 0) ''old'', Edit ''X=1'', Select ''b.py'',
         CodeArrived (Suc (Suc 0)) ''other'']) (Select ''a.py''))) = ''X=1''
   \<and> lastAccepted ''a.py'' (initialPage :: (nat, nat) page)
        [Select ''a.py'', Select ''b.py'', CodeArrived (Suc 0) ''A-code'',
         CodeArrived (Suc (Suc 0)) ''B-code''] = None
   \<and> codeFetches (step (run (initialPage :: (nat, nat) page)
        [Select ''a.py'', Select ''b.py'', CodeArrived (Suc 0) ''A-code'',
         CodeArrived (Suc (Suc 0)) ''B-code'']) (Select ''a.py'')) (Suc (Suc (Suc 0))) = Some ''a.py''"
proof -
  let ?kept = "[Select ''a.py'', CodeArrived (Suc 0) ''old'', Edit ''X=1'', Select ''b.py'',
         CodeArrived (Suc (Suc 0)) ''other'']"
  let ?late = "[Select ''a.py'', Select ''b.py'', CodeArrived (Suc 0) ''A-code'',
         CodeArrived (Suc (Suc 0)) ''B-code'']"
  have ne: "''a.py'' \<noteq> []" by simp
  have lc: "lastAccepted ''a.py'' (initialPage :: (nat, nat) page) ?kept = Some ''X=1''"
    by code_simp
  have ln: "lastAccepted ''a.py'' (initialPage :: (nat, nat) page) ?late = None"
    by code_simp
  have away: "selectedPath (page_home (run (initialPage :: (nat, nat) page) ?late)) \<noteq> Some ''a.py''"
    by code_simp
  have runs: "effectRuns (step (run (initialPage :: (nat, nat) page) ?late) (Select ''a.py''))
                = Suc (Suc (Suc 0))"
    by code_simp
  from reselect_shows_last_committed [OF ne, where evs = ?kept and 'r = nat and 'p = nat] lc
  have first: "code (page_home (step (run (initialPage :: (nat, nat) page) ?kept) (Select ''a.py'')))
                 = ''X=1''"
    by blast
  from reselect_shows_last_committed [OF ne, where evs = ?late and 'r = nat and 'p = nat] ln away
  have "codeFetches (step (run (initialPage :: (nat, nat) page) ?late) (Select ''a.py''))
          (effectRuns (step (run (initialPage :: (nat, nat) page) ?late) (Select ''a.py'')))
          = Some ''a.py''"
    by blast
  then have second: "codeFetches (step (run (initialPage :: (nat, nat) page) ?late) (Select ''a.py''))
          (Suc (Suc (Suc 0))) = Some ''a.py''"
    unfolding runs .
  from ne lc first ln second show ?thesis by blast
qed

section \<open>Unsaved edits\<close>

lemma away_selected:
  assumes "selectedPath (page_home pg) \<noteq> Some X" and "Select X \<notin> set evs"
  shows "selectedPath (page_home (run pg evs)) \<noteq> Some X"
  using assms
proof (induction evs arbitrary: pg)
  case Nil
  then show ?case by (simp add: run_Nil)
next
  case (Cons e es)
  from Cons.prems have "selectedPath (page_home (step pg e)) \<noteq> Some X"
    by (auto simp: step_selected split: ev.splits)
  with Cons.prems show ?case
    unfolding run_Cons by (intro Cons.IH) simp_all
qed

lemma away_commits_nothing:
  assumes "fetchesLive pg" and "selectedPath (page_home pg) \<noteq> Some X" and "Select X \<notin> set evs"
  shows "lastAccepted X pg evs = None"
  using assms
proof (induction evs arbitrary: pg)
  case Nil
  show ?case by simp
next
  case (Cons e es)
  have none: "acceptedCommit X pg e = None"
  proof (cases e)
    case (CodeArrived k content)
    with Cons.prems(1,2) show ?thesis
      by (auto simp: fetchesLive_def)
  next
    case (Edit t)
    with Cons.prems(2) show ?thesis by simp
  qed simp_all
  have live: "fetchesLive (step pg e)"
    using Cons.prems(1) by (rule fetchesLive_step)
  have sel: "selectedPath (page_home (step pg e)) \<noteq> Some X"
    using Cons.prems(2,3) by (auto simp: step_selected split: ev.splits)
  have "lastAccepted X (step pg e) es = None"
    using live sel Cons.prems(3) by (intro Cons.IH) simp_all
  with none show ?case by simp
qed

text \<open>
  Claim C10 as stated fails in its last part: the cached value takes precedence only when
  the effect starts. A fetch for \<open>a.py\<close> that is pending while the user types, and
  answers while \<open>a.py\<close> is still selected, replaces the typed text on the screen and in
  the cache.
\<close>

theorem pending_fetch_overwrites_edit_counterexample:
  "(let typed = run (initialPage :: (nat, nat) page) [Select ''a.py'', Edit ''mine''];
        answered = step typed (CodeArrived (Suc 0) ''server'')
    in codeFetches typed (Suc 0) = Some ''a.py''
       \<and> codeByStrategy (page_home typed) ''a.py'' = Some ''mine''
       \<and> code (page_home typed) = ''mine''
       \<and> codeByStrategy (page_home answered) ''a.py'' = Some ''server''
       \<and> code (page_home answered) = ''server'')"
  by (simp add: Let_def run_def select_def hydrate_def needsCode_def needsParams_def onChange_def
      codeFetched_def initialPage_def initialHome_def)

text \<open>
  Claim C10, amended. While a strategy \<open>X\<close> is selected, every editor change writes the
  typed text into the code cache under \<open>X\<close> and displays it. When the user then selects
  another strategy \<open>Y\<close> and, after any further selections of strategies other than \<open>X\<close>,
  edits and answers to fetches (among them the answer to a fetch for \<open>X\<close> that was pending,
  which is dropped), selects \<open>X\<close> again, the cache still holds the typed text, it is
  displayed, and no fetch for \<open>X\<close> is issued. (Nothing is claimed for a fetch that answers
  while \<open>X\<close> is still selected.)
\<close>

theorem unsaved_edits_survive_switching:
  assumes sel: "selectedPath (page_home (run (initialPage :: ('r, 'p) page) evs0)) = Some X"
    and ne: "X \<noteq> []" and other: "Y \<noteq> X" and away: "Select X \<notin> set evs"
    and edited: "edited = step (run (initialPage :: ('r, 'p) page) evs0) (Edit t)"
    and left: "left = run (step edited (Select Y)) evs"
    and again: "again = step left (Select X)"
  shows "codeByStrategy (page_home edited) X = Some t \<and> code (page_home edited) = t
    \<and> codeByStrategy (page_home left) X = Some t
    \<and> codeByStrategy (page_home again) X = Some t \<and> code (page_home again) = t
    \<and> codeFetches again = codeFetches left"
proof -
  let ?pg = "run (initialPage :: ('r, 'p) page) evs0"
  have inv0: "fetchesLive ?pg" "shownIsCached ?pg"
    by (simp_all add: invariants_reachable)
  have c1: "codeByStrategy (page_home edited) X = Some t"
    unfolding edited using step_cache [OF ne, of ?pg "Edit t"] sel by simp
  have c2: "code (page_home edited) = t"
    unfolding edited by (simp add: onChange_def Let_def split: option.splits)
  have inv1: "fetchesLive edited" "shownIsCached edited"
    unfolding edited using inv0 by (simp_all only: fetchesLive_step shownIsCached_step)
  let ?sw = "step edited (Select Y)"
  have inv2: "fetchesLive ?sw" "shownIsCached ?sw"
    using inv1 by (simp_all only: fetchesLive_step shownIsCached_step)
  have sel2: "selectedPath (page_home ?sw) \<noteq> Some X"
    using other by (simp add: select_selected)
  have c3: "codeByStrategy (page_home ?sw) X = Some t"
    using c1 by (simp add: select_frame)
  have "lastAccepted X ?sw evs = None"
    using inv2(1) sel2 away by (rule away_commits_nothing)
  then have c4: "codeByStrategy (page_home left) X = Some t"
    unfolding left using run_cache [OF ne, of ?sw evs] c3 by simp
  have inv3: "shownIsCached left"
    unfolding left using invariants_run [OF inv2] by simp
  have sel3: "selectedPath (page_home left) \<noteq> Some X"
    unfolding left using sel2 away by (rule away_selected)
  have c5: "code (page_home again) = t"
    unfolding again step.simps using inv3 ne c4 by (rule select_shows_cached)
  have c6: "codeByStrategy (page_home again) X = Some t"
    unfolding again using c4 by (simp add: select_frame)
  have c7: "codeFetches again = codeFetches left"
    unfolding again using sel3 c4 ne
    by (simp add: select_def Let_def needsCode_def)
  from c1 c2 c4 c5 c6 c7 show ?thesis by simp
qed

theorem unsaved_edits_survive_switching_witness:
  "(let evs0 = [Select ''a.py''];
        evs = [CodeArrived (Suc 0) ''server'', CodeArrived (Suc (Suc 0)) ''other'', Edit ''Y=2''];
        edited = step (run (initialPage :: (nat, nat) page) evs0) (Edit ''X=1'');
        left = run (step edited (Select ''b.py'')) evs;
        again = step left (Select ''a.py'')
    in selectedPath (page_home (run (initialPage :: (nat, nat) page) evs0)) = Some ''a.py''
       \<and> ''a.py'' \<noteq> [] \<and> ''b.py'' \<noteq> ''a.py'' \<and> Select ''a.py'' \<notin> set evs
       \<and> codeFetches edited (Suc 0) = Some ''a.py''
       \<and> code (page_home left) = ''Y=2''
       \<and> code (page_home again) = ''X=1''
       \<and> codeFetches again = codeFetches left)"
proof -
  let ?before = "[Select ''a.py'']"
  let ?between = "[CodeArrived (Suc 0) ''server'', CodeArrived (Suc (Suc 0)) ''other'', Edit ''Y=2'']"
  let ?edited = "step (run (initialPage :: (nat, nat) page) ?before) (Edit ''X=1'')"
  let ?left = "run (step ?edited (Select ''b.py'')) ?between"
  let ?again = "step ?left (Select ''a.py'')"
  have sel: "selectedPath (page_home (run (initialPage :: (nat, nat) page) ?before)) = Some ''a.py''"
    by (simp add: run_def select_selected)
  have ne: "''a.py'' \<noteq> []" by simp
  have other: "''b.py'' \<noteq> ''a.py''" by simp
  have away: "Select ''a.py'' \<notin> set ?between" by simp
  have pending: "codeFetches ?edited (Suc 0) = Some ''a.py''"
    by code_simp
  have shown: "code (page_home ?left) = ''Y=2''"
    by code_simp
  note facts = unsaved_edits_survive_switching [OF sel ne other away refl refl refl, of "''X=1''"]
  from facts have "code (page_home ?again) = ''X=1''" and "codeFetches ?again = codeFetches ?left"
    by blast+
  with sel ne other away pending shown show ?thesis
    unfolding Let_def by blast
qed

section \<open>Refreshing after a switch of strategy\<close>














end
